theory Spec2Isabelle
  imports
    Complex_Main
    "HOL-Library.Sublist"
    "HOL-Library.Word"
    "HOL-Library.Multiset"
    "HOL-Library.Product_Lexorder"
    "HOL-Library.List_Lexorder"
begin

section \<open>The database layer of the income and spending dashboard (db.js)\<close>

text \<open>
  The embedding follows \<^verbatim>\<open>db.js\<close> (the SQLite layer of the dashboard) function by
  function. Conventions:
  \<^item> a JavaScript string that can hold Hebrew text (descriptions, memos, category names,
    transaction ids) is the list of its UTF-16 code units, \<open>jsstring\<close>; category ids
    (\<^verbatim>\<open>cat-<time>-<random>\<close> and the sentinel \<^verbatim>\<open>uncategorized\<close>) and account labels are
    ASCII and are plain \<open>string\<close>s;
  \<^item> a stored date is the text \<^verbatim>\<open>YYYY-MM-DD\<close>; it is modelled by the triple (year, month,
    day), on which SQLite's text comparison is the lexicographic order and from which
    \<^verbatim>\<open>getFullYear()\<close>, \<^verbatim>\<open>getMonth() + 1\<close> and \<^verbatim>\<open>getDate()\<close> read the three components
    (four-digit years, a process time zone at or east of UTC);
  \<^item> amounts are integers (agorot); JavaScript numbers are exact on them below \<open>2^53\<close>;
  \<^item> the SQLite columns \<^verbatim>\<open>is_transfer\<close>, \<^verbatim>\<open>is_investment\<close> and \<^verbatim>\<open>is_occasional_income\<close> only
    ever hold 0 or 1 and are booleans; \<^verbatim>\<open>category_id\<close> and \<^verbatim>\<open>user_comment\<close> may be NULL and
    are options; \<^verbatim>\<open>scraped_at\<close> (a wall-clock stamp) is left out;
  \<^item> a table is the list of its rows; \<^verbatim>\<open>UPDATE ... WHERE\<close> maps over the rows,
    \<^verbatim>\<open>DELETE ... WHERE\<close> filters them, \<^verbatim>\<open>INSERT\<close> appends one.
\<close>

subsection \<open>Strings and the fixed pattern lists\<close>

type_synonym jsstring = "16 word list"

text \<open>\<^verbatim>\<open>String.prototype.includes\<close>: the pattern occurs as a contiguous run.\<close>

fun includes_js :: "jsstring \<Rightarrow> jsstring \<Rightarrow> bool" where
  "includes_js [] p = (p = [])"
| "includes_js (c # cs) p = (prefix p (c # cs) \<or> includes_js cs p)"

text \<open>The Hebrew literals of the source, as UTF-16 code units.\<close>

definition TRANSFER_PATTERNS :: "jsstring list" where
  "TRANSFER_PATTERNS =
     [[1499, 1512, 1496, 1497, 1505, 1497, 32, 1488, 1513, 1512, 1488, 1497, 32, 1500]]"

definition SALARY_PATTERNS :: "jsstring list" where
  "SALARY_PATTERNS =
     [[1502, 1513, 1499, 1493, 1512, 1514],
      [1513, 1499, 1512],
      [1494, 1497, 1499, 1493, 1497, 32, 1502, 1500, 1488, 1493, 1502, 1497],
      [1492, 1506, 1489, 1512, 1514, 32, 1502, 1513, 1499, 1493, 1512, 1514]]"

definition CREDIT_CARD_PATTERNS :: "jsstring list" where
  "CREDIT_CARD_PATTERNS =
     [[1502, 1505, 1496, 1512, 1511, 1512, 1491],
      [1493, 1497, 1494, 1492],
      [1499, 1512, 1496, 1497, 1505, 1497, 32, 1488, 1513, 1512, 1488, 1497],
      [1497, 1513, 1512, 1488, 1499, 1512, 1496],
      [1488, 1502, 1512, 1497, 1511, 1503, 32, 1488, 1511, 1505, 1508, 1512, 1505],
      [1491, 1497, 1497, 1504, 1512, 1505],
      [1500, 1488, 1493, 1502, 1497, 32, 1511, 1488, 1512, 1491]]"

text \<open>The display name of the variable-expenses category (line 773 of \<^verbatim>\<open>db.js\<close>).\<close>

definition VARIABLE_EXPENSES_NAME :: jsstring where
  "VARIABLE_EXPENSES_NAME =
     [1492, 1493, 1510, 1488, 1493, 1514, 32, 1502, 1513, 1514, 1504, 1493, 1514]"

text \<open>
  \<^verbatim>\<open>isTransfer(description)\<close>. The description of a scraped record may be null or
  undefined (\<open>None\<close>). \<^verbatim>\<open>toLowerCase\<close> is the runtime's Unicode case mapping and is taken
  as the parameter \<open>lc\<close>.
\<close>

definition isTransfer :: "(jsstring \<Rightarrow> jsstring) \<Rightarrow> jsstring option \<Rightarrow> bool" where
  "isTransfer lc description =
     (case description of
        None \<Rightarrow> False
      | Some d \<Rightarrow>
          if d = [] then False
          else (let lower = lc d
                in list_ex (\<lambda>p. includes_js d p \<or> includes_js lower (lc p)) TRANSFER_PATTERNS))"

definition isSalaryTransaction :: "jsstring \<Rightarrow> int \<Rightarrow> bool" where
  "isSalaryTransaction description amt =
     (if amt \<le> 0 then False
      else if description = [] then False
      else list_ex (\<lambda>p. includes_js description p) SALARY_PATTERNS)"

definition isCreditCardTransaction :: "jsstring \<Rightarrow> bool" where
  "isCreditCardTransaction description =
     (if description = [] then False
      else list_ex (\<lambda>p. includes_js description p) CREDIT_CARD_PATTERNS)"

subsection \<open>Tables\<close>

type_synonym date = "int \<times> int \<times> int"

definition getFullYear :: "date \<Rightarrow> int" where
  "getFullYear d = fst d"

text \<open>\<open>getMonth1\<close> is \<^verbatim>\<open>getMonth() + 1\<close>, the 1-based month.\<close>

definition getMonth1 :: "date \<Rightarrow> int" where
  "getMonth1 d = fst (snd d)"

definition getDate :: "date \<Rightarrow> int" where
  "getDate d = snd (snd d)"

datatype txn_type = Income | Expense

record txn =
  txn_id :: jsstring
  date :: date
  amount :: int
  description :: jsstring
  memo :: jsstring
  account :: string
  txn_type :: txn_type
  category_id :: "string option"
  is_transfer :: bool
  is_investment :: bool
  user_comment :: "jsstring option"
  is_occasional_income :: bool

record category =
  cat_id :: string
  cat_name :: jsstring
  cat_color :: string

text \<open>
  The settings table maps a key to a text value. The three families of keys the code
  builds (\<^verbatim>\<open>savings_goal\<close>, \<^verbatim>\<open>savings_goal_<year>_<month>\<close>, \<^verbatim>\<open>expected_income\<close>) are a
  datatype; a stored value is what \<^verbatim>\<open>parseInt\<close> reads from it, \<open>None\<close> standing for NaN.
\<close>

datatype setting_key = SavingsGoal | SavingsGoalOf int int | ExpectedIncome

record db =
  tbl_transactions :: "txn list"
  tbl_categories :: "category list"
  tbl_category_rules :: "jsstring \<rightharpoonup> string"
  tbl_settings :: "setting_key \<rightharpoonup> int option"

subsection \<open>Month attribution\<close>

definition BILL_CUTOFF_DAY :: int where
  "BILL_CUTOFF_DAY = 3"

text \<open>
  \<^verbatim>\<open>SELECT * FROM transactions WHERE date >= ? AND date <= ? ORDER BY date DESC\<close>.
  The order among rows of one date is the store's; the model takes a stable one.
\<close>

definition select_between_desc :: "db \<Rightarrow> date \<Rightarrow> date \<Rightarrow> txn list" where
  "select_between_desc d lo hi =
     rev (sort_key date (filter (\<lambda>r. lo \<le> date r \<and> date r \<le> hi) (tbl_transactions d)))"

text \<open>The callback of \<^verbatim>\<open>allTransactions.filter\<close> (lines 210 to 247).\<close>

definition israeli_month_filter :: "int \<Rightarrow> int \<Rightarrow> int \<Rightarrow> int \<Rightarrow> txn \<Rightarrow> bool" where
  "israeli_month_filter year month nextYear nextMonth t =
     (let txnMonth = getMonth1 (date t);
          txnDay = getDate (date t);
          txnYear = getFullYear (date t);
          isTargetMonth = (txnYear = year \<and> txnMonth = month);
          isEarlyNextMonth =
            ((txnYear = nextYear \<and> txnMonth = nextMonth \<and> txnDay \<le> BILL_CUTOFF_DAY) \<or>
             (nextMonth = 1 \<and> txnYear = nextYear \<and> txnMonth = 1 \<and> txnDay \<le> BILL_CUTOFF_DAY))
      in if isTargetMonth then
           (if txnDay \<le> BILL_CUTOFF_DAY then
              (let isSalary = isSalaryTransaction (description t) (amount t);
                   isCC = isCreditCardTransaction (description t)
               in \<not> isSalary \<and> \<not> isCC)
            else True)
         else if isEarlyNextMonth then
           (let isSalary = isSalaryTransaction (description t) (amount t);
                isCC = isCreditCardTransaction (description t)
            in isSalary \<or> isCC)
         else False)"

definition getTransactionsByIsraeliMonth :: "db \<Rightarrow> int \<Rightarrow> int \<Rightarrow> txn list" where
  "getTransactionsByIsraeliMonth d year month =
     (let monthStart = (year, month, 1);
          nextMonth = (if month + 1 > 12 then 1 else month + 1);
          nextYear = (if month + 1 > 12 then year + 1 else year);
          earlyNextMonthEnd = (nextYear, nextMonth, 10);
          allTransactions = select_between_desc d monthStart earlyNextMonthEnd
      in filter (israeli_month_filter year month nextYear nextMonth) allTransactions)"

subsection \<open>Monthly summary\<close>

record bucket =
  bk_income :: int
  bk_expenses :: int
  bk_transactions :: "txn list"

text \<open>
  The object returned by \<^verbatim>\<open>getMonthlySummary\<close>; \<^verbatim>\<open>byCategory\<close> is a JavaScript object
  used as a dictionary, kept here as the list of its entries in insertion order (the
  order of \<^verbatim>\<open>Object.entries\<close>; its keys are category ids or \<^verbatim>\<open>uncategorized\<close>).
\<close>

record summary =
  ms_year :: int
  ms_month :: int
  ms_income :: int
  ms_expenses :: int
  ms_balance :: int
  ms_transfersIn :: int
  ms_transfersOut :: int
  ms_transfersNet :: int
  ms_investmentTotal :: int
  ms_transactionCount :: nat
  ms_transactions :: "txn list"
  ms_transfers :: "txn list"
  ms_investments :: "txn list"
  ms_byCategory :: "(string \<times> bucket) list"

text \<open>The local variables of the first loop (lines 256 to 264).\<close>

record totals =
  t_income :: int
  t_expenses :: int
  t_transfersIn :: int
  t_transfersOut :: int
  t_investmentTotal :: int
  t_transactions :: "txn list"
  t_transfers :: "txn list"
  t_investments :: "txn list"

definition totals0 :: totals where
  "totals0 = \<lparr>t_income = 0, t_expenses = 0, t_transfersIn = 0, t_transfersOut = 0,
              t_investmentTotal = 0, t_transactions = [], t_transfers = [],
              t_investments = []\<rparr>"

text \<open>One iteration of the first loop (lines 266 to 285).\<close>

definition classify_step :: "txn \<Rightarrow> totals \<Rightarrow> totals" where
  "classify_step t a =
     (if is_transfer t then
        (if amount t > 0
         then a\<lparr>t_transfers := t_transfers a @ [t], t_transfersIn := t_transfersIn a + amount t\<rparr>
         else a\<lparr>t_transfers := t_transfers a @ [t],
                t_transfersOut := t_transfersOut a + \<bar>amount t\<bar>\<rparr>)
      else if is_investment t then
        a\<lparr>t_investments := t_investments a @ [t],
          t_investmentTotal := t_investmentTotal a + \<bar>amount t\<bar>\<rparr>
      else
        (if amount t > 0
         then a\<lparr>t_transactions := t_transactions a @ [t], t_income := t_income a + amount t\<rparr>
         else a\<lparr>t_transactions := t_transactions a @ [t],
                t_expenses := t_expenses a + \<bar>amount t\<bar>\<rparr>))"

definition UNCATEGORIZED :: string where
  "UNCATEGORIZED = ''uncategorized''"

text \<open>\<^verbatim>\<open>txn.category_id || 'uncategorized'\<close>: NULL and the empty string are falsy.\<close>

definition category_key :: "txn \<Rightarrow> string" where
  "category_key t =
     (case category_id t of
        None \<Rightarrow> UNCATEGORIZED
      | Some c \<Rightarrow> if c = [] then UNCATEGORIZED else c)"

definition add_to_bucket :: "txn \<Rightarrow> bucket \<Rightarrow> bucket" where
  "add_to_bucket t b =
     (if amount t > 0
      then b\<lparr>bk_income := bk_income b + amount t, bk_transactions := bk_transactions b @ [t]\<rparr>
      else b\<lparr>bk_expenses := bk_expenses b + \<bar>amount t\<bar>,
             bk_transactions := bk_transactions b @ [t]\<rparr>)"

text \<open>One iteration of the grouping loop (lines 289 to 300).\<close>

definition group_step :: "txn \<Rightarrow> (string \<times> bucket) list \<Rightarrow> (string \<times> bucket) list" where
  "group_step t byCategory =
     (let catId = category_key t;
          byCategory1 =
            (if map_of byCategory catId = None
             then byCategory @ [(catId, \<lparr>bk_income = 0, bk_expenses = 0, bk_transactions = []\<rparr>)]
             else byCategory)
      in map (\<lambda>(k, b). if k = catId then (k, add_to_bucket t b) else (k, b)) byCategory1)"

definition getMonthlySummary :: "db \<Rightarrow> int \<Rightarrow> int \<Rightarrow> summary" where
  "getMonthlySummary d year month =
     (let allTransactions = getTransactionsByIsraeliMonth d year month;
          a = fold classify_step allTransactions totals0;
          byCategory = fold group_step (t_transactions a) []
      in \<lparr>ms_year = year, ms_month = month,
          ms_income = t_income a, ms_expenses = t_expenses a,
          ms_balance = t_income a - t_expenses a,
          ms_transfersIn = t_transfersIn a, ms_transfersOut = t_transfersOut a,
          ms_transfersNet = t_transfersIn a - t_transfersOut a,
          ms_investmentTotal = t_investmentTotal a,
          ms_transactionCount = length (t_transactions a),
          ms_transactions = t_transactions a, ms_transfers = t_transfers a,
          ms_investments = t_investments a, ms_byCategory = byCategory\<rparr>)"

subsection \<open>Category averages\<close>

text \<open>
  \<^verbatim>\<open>Math.round(sum / n)\<close> on an integer sum and a positive count: the nearest integer,
  a tie going up.
\<close>

definition js_round_div :: "int \<Rightarrow> nat \<Rightarrow> int" where
  "js_round_div s n = (2 * s + int n) div (2 * int n)"

text \<open>
  The loop of \<^verbatim>\<open>getCategoryAverage\<close> (lines 550 to 569): the list \<^verbatim>\<open>totals\<close> after
  \<open>numMonths\<close> iterations started at (year, month).
\<close>

fun category_totals :: "db \<Rightarrow> string \<Rightarrow> nat \<Rightarrow> int \<Rightarrow> int \<Rightarrow> int list" where
  "category_totals d categoryId 0 year month = []"
| "category_totals d categoryId (Suc n) year month =
     (let month' = (if month - 1 < 1 then 12 else month - 1);
          year' = (if month - 1 < 1 then year - 1 else year);
          summary = getMonthlySummary d year' month';
          categoryTotal =
            (case map_of (ms_byCategory summary) categoryId of
               None \<Rightarrow> 0
             | Some catData \<Rightarrow> bk_expenses catData)
      in categoryTotal # category_totals d categoryId n year' month')"

definition average_nonzero :: "int list \<Rightarrow> int" where
  "average_nonzero totals =
     (let nonZeroTotals = filter (\<lambda>t. t > 0) totals
      in if length nonZeroTotals = 0 then 0
         else js_round_div (sum_list nonZeroTotals) (length nonZeroTotals))"

definition getCategoryAverage :: "db \<Rightarrow> string \<Rightarrow> int \<Rightarrow> int \<Rightarrow> nat \<Rightarrow> int" where
  "getCategoryAverage d categoryId currentYear currentMonth numMonths =
     average_nonzero (category_totals d categoryId numMonths currentYear currentMonth)"

text \<open>\<^verbatim>\<open>SELECT * FROM categories ORDER BY name\<close>.\<close>

definition getCategories :: "db \<Rightarrow> category list" where
  "getCategories d = sort_key cat_name (tbl_categories d)"

definition getAllCategoryAverages :: "db \<Rightarrow> int \<Rightarrow> int \<Rightarrow> (string \<rightharpoonup> int)" where
  "getAllCategoryAverages d currentYear currentMonth =
     (let averages =
            fold (\<lambda>cat averages.
                    averages(cat_id cat \<mapsto>
                      getCategoryAverage d (cat_id cat) currentYear currentMonth 3))
                 (getCategories d) Map.empty
      in averages(UNCATEGORIZED \<mapsto>
           getCategoryAverage d UNCATEGORIZED currentYear currentMonth 3))"

subsection \<open>Settings\<close>

text \<open>\<^verbatim>\<open>parseInt(value) || 0\<close>.\<close>

definition parseInt_or_0 :: "int option \<Rightarrow> int" where
  "parseInt_or_0 v = (case v of None \<Rightarrow> 0 | Some n \<Rightarrow> n)"

text \<open>\<^verbatim>\<open>getSetting(key, defaultValue)\<close>; the default \<open>None\<close> is \<^verbatim>\<open>null\<close>.\<close>

definition getSetting :: "db \<Rightarrow> setting_key \<Rightarrow> int option option \<Rightarrow> int option option" where
  "getSetting d k defaultValue =
     (case tbl_settings d k of None \<Rightarrow> defaultValue | Some v \<Rightarrow> Some v)"

definition getSavingsGoal :: "db \<Rightarrow> int \<Rightarrow> int \<Rightarrow> int" where
  "getSavingsGoal d year month =
     (case (if year \<noteq> 0 \<and> month \<noteq> 0 then getSetting d (SavingsGoalOf year month) None
            else None) of
        Some monthValue \<Rightarrow> parseInt_or_0 monthValue
      | None \<Rightarrow>
          (case getSetting d SavingsGoal (Some (Some 0)) of
             Some v \<Rightarrow> parseInt_or_0 v
           | None \<Rightarrow> 0))"

definition getExpectedIncome :: "db \<Rightarrow> int" where
  "getExpectedIncome d =
     (case getSetting d ExpectedIncome (Some (Some 0)) of
        Some v \<Rightarrow> parseInt_or_0 v
      | None \<Rightarrow> 0)"

subsection \<open>Regular and occasional income\<close>

text \<open>The loops over \<^verbatim>\<open>summary.transactions\<close> (lines 683 to 687, 706 to 710, 722 to 726).\<close>

definition regular_income_loop :: "txn list \<Rightarrow> int" where
  "regular_income_loop ts =
     fold (\<lambda>t regularIncome.
             if amount t > 0 \<and> \<not> is_occasional_income t
             then regularIncome + amount t else regularIncome) ts 0"

definition occasional_income_loop :: "txn list \<Rightarrow> int" where
  "occasional_income_loop ts =
     fold (\<lambda>t occasionalIncome.
             if amount t > 0 \<and> is_occasional_income t
             then occasionalIncome + amount t else occasionalIncome) ts 0"

definition getRegularIncomeForMonth :: "db \<Rightarrow> int \<Rightarrow> int \<Rightarrow> int" where
  "getRegularIncomeForMonth d year month =
     regular_income_loop (ms_transactions (getMonthlySummary d year month))"

definition getOccasionalIncomeForMonth :: "db \<Rightarrow> int \<Rightarrow> int \<Rightarrow> int" where
  "getOccasionalIncomeForMonth d year month =
     occasional_income_loop (ms_transactions (getMonthlySummary d year month))"

text \<open>The loop of \<^verbatim>\<open>getAverageRegularIncome\<close>: only positive month totals are pushed.\<close>

fun regular_incomes :: "db \<Rightarrow> nat \<Rightarrow> int \<Rightarrow> int \<Rightarrow> int list" where
  "regular_incomes d 0 year month = []"
| "regular_incomes d (Suc n) year month =
     (let month' = (if month - 1 < 1 then 12 else month - 1);
          year' = (if month - 1 < 1 then year - 1 else year);
          summary = getMonthlySummary d year' month';
          regularIncome = regular_income_loop (ms_transactions summary)
      in (if regularIncome > 0 then [regularIncome] else []) @
         regular_incomes d n year' month')"

definition getAverageRegularIncome :: "db \<Rightarrow> int \<Rightarrow> int \<Rightarrow> nat \<Rightarrow> int" where
  "getAverageRegularIncome d currentYear currentMonth numMonths =
     (let incomes = regular_incomes d numMonths currentYear currentMonth
      in if length incomes = 0 then 0
         else js_round_div (sum_list incomes) (length incomes))"

subsection \<open>Available budget\<close>

text \<open>
  The object returned by \<^verbatim>\<open>calculateAvailableBudget\<close>; its \<^verbatim>\<open>breakdown\<close> member repeats
  six of these fields under other names and is left out.
\<close>

record budget =
  bd_income :: int
  bd_actualIncome :: int
  bd_expectedIncome :: int
  bd_expectedRegularIncome :: int
  bd_actualRegularIncome :: int
  bd_actualOccasionalIncome :: int
  bd_userExpectedIncome :: int
  bd_averageIncome :: int
  bd_savingsGoal :: int
  bd_fixedExpenses :: int
  bd_availableForVariable :: int
  bd_variableActual :: int
  bd_remainingForVariable :: int

text \<open>Lines 763 and 766: \<^verbatim>\<open>Math.max\<close> of the three signals, plus the occasional income.\<close>

definition expectedRegularIncome :: "int \<Rightarrow> int \<Rightarrow> int \<Rightarrow> int" where
  "expectedRegularIncome actualRegularIncome userExpectedIncome averageRegularIncome =
     max (max actualRegularIncome userExpectedIncome) averageRegularIncome"

definition expectedIncome :: "int \<Rightarrow> int \<Rightarrow> int \<Rightarrow> int \<Rightarrow> int" where
  "expectedIncome actualRegularIncome userExpectedIncome averageRegularIncome
       actualOccasionalIncome =
     expectedRegularIncome actualRegularIncome userExpectedIncome averageRegularIncome
       + actualOccasionalIncome"

text \<open>
  One iteration of the loop over \<^verbatim>\<open>Object.entries(summary.byCategory)\<close> (lines 780 to
  792); the state is the pair (fixedExpenses, variableActual).
\<close>

definition fixed_step ::
  "string option \<Rightarrow> (string \<rightharpoonup> int) \<Rightarrow> string \<times> bucket \<Rightarrow> int \<times> int \<Rightarrow> int \<times> int" where
  "fixed_step variableCategoryId averages entry acc =
     (let catId = fst entry; data = snd entry;
          fixedExpenses = fst acc; variableActual = snd acc
      in if Some catId = variableCategoryId then (fixedExpenses, bk_expenses data)
         else (let actual = bk_expenses data;
                   average = (case averages catId of None \<Rightarrow> 0 | Some v \<Rightarrow> v)
               in (fixedExpenses + max actual average, variableActual)))"

definition variableCategoryId :: "db \<Rightarrow> string option" where
  "variableCategoryId d =
     (case find (\<lambda>c. cat_name c = VARIABLE_EXPENSES_NAME) (getCategories d) of
        None \<Rightarrow> None
      | Some variableCategory \<Rightarrow> Some (cat_id variableCategory))"

definition calculateAvailableBudget :: "db \<Rightarrow> int \<Rightarrow> int \<Rightarrow> budget" where
  "calculateAvailableBudget d year month =
     (let summary = getMonthlySummary d year month;
          averages = getAllCategoryAverages d year month;
          savingsGoal = getSavingsGoal d year month;
          actualRegularIncome = getRegularIncomeForMonth d year month;
          userExpectedIncome = getExpectedIncome d;
          averageRegularIncome = getAverageRegularIncome d year month 3;
          actualOccasionalIncome = getOccasionalIncomeForMonth d year month;
          expectedRegular =
            expectedRegularIncome actualRegularIncome userExpectedIncome averageRegularIncome;
          expected =
            expectedIncome actualRegularIncome userExpectedIncome averageRegularIncome
              actualOccasionalIncome;
          income = expected;
          actualIncome = ms_income summary;
          acc = fold (fixed_step (variableCategoryId d) averages) (ms_byCategory summary) (0, 0);
          fixedExpenses = fst acc;
          variableActual = snd acc;
          availableForVariable = income - savingsGoal - fixedExpenses;
          remainingForVariable = availableForVariable - variableActual
      in \<lparr>bd_income = income, bd_actualIncome = actualIncome, bd_expectedIncome = expected,
          bd_expectedRegularIncome = expectedRegular,
          bd_actualRegularIncome = actualRegularIncome,
          bd_actualOccasionalIncome = actualOccasionalIncome,
          bd_userExpectedIncome = userExpectedIncome,
          bd_averageIncome = averageRegularIncome,
          bd_savingsGoal = savingsGoal, bd_fixedExpenses = fixedExpenses,
          bd_availableForVariable = availableForVariable,
          bd_variableActual = variableActual,
          bd_remainingForVariable = remainingForVariable\<rparr>)"

subsection \<open>Year-to-date summary\<close>

record ytd =
  ytd_year :: int
  ytd_income :: int
  ytd_expenses :: int
  ytd_balance :: int
  ytd_investmentTotal :: int
  ytd_transactionCount :: nat

text \<open>The local variables of the loop (lines 470 to 473).\<close>

record ytd_totals =
  y_income :: int
  y_expenses :: int
  y_investmentTotal :: int
  y_count :: nat

text \<open>The year a row is counted for (lines 476 to 497).\<close>

definition belongsToYear :: "txn \<Rightarrow> int" where
  "belongsToYear t =
     (let txnYear = getFullYear (date t);
          txnMonth = getMonth1 (date t);
          txnDay = getDate (date t);
          isEarlyJan = (txnMonth = 1 \<and> txnDay \<le> 3)
      in if isEarlyJan then
           (let isSalary = isSalaryTransaction (description t) (amount t);
                isCC = isCreditCardTransaction (description t)
            in if isSalary \<or> isCC then txnYear - 1 else txnYear)
         else txnYear)"

definition ytd_step :: "int \<Rightarrow> txn \<Rightarrow> ytd_totals \<Rightarrow> ytd_totals" where
  "ytd_step year t a =
     (if belongsToYear t = year then
        (if is_investment t then
           a\<lparr>y_count := y_count a + 1,
             y_investmentTotal := y_investmentTotal a + \<bar>amount t\<bar>\<rparr>
         else if amount t > 0 then
           a\<lparr>y_count := y_count a + 1, y_income := y_income a + amount t\<rparr>
         else
           a\<lparr>y_count := y_count a + 1, y_expenses := y_expenses a + \<bar>amount t\<bar>\<rparr>)
      else a)"

text \<open>
  \<^verbatim>\<open>SELECT * FROM transactions WHERE date >= ? AND date <= ? AND is_transfer = 0\<close>.
\<close>

definition select_ytd :: "db \<Rightarrow> date \<Rightarrow> date \<Rightarrow> txn list" where
  "select_ytd d lo hi =
     filter (\<lambda>r. lo \<le> date r \<and> date r \<le> hi \<and> \<not> is_transfer r) (tbl_transactions d)"

definition getYearToDateSummary :: "db \<Rightarrow> int \<Rightarrow> ytd" where
  "getYearToDateSummary d year =
     (let earlyThisYear = (year, 1, 1);
          endDate = (year + 1, 1, 3);
          allTxns = select_ytd d earlyThisYear endDate;
          a = fold (ytd_step year) allTxns
                \<lparr>y_income = 0, y_expenses = 0, y_investmentTotal = 0, y_count = 0\<rparr>
      in \<lparr>ytd_year = year, ytd_income = y_income a, ytd_expenses = y_expenses a,
          ytd_balance = y_income a - y_expenses a,
          ytd_investmentTotal = y_investmentTotal a,
          ytd_transactionCount = y_count a\<rparr>)"

subsection \<open>Ingestion\<close>

text \<open>
  A record handed over by the scraper: its id, date and amount, and a description and a
  memo that may be missing.
\<close>

record raw_txn =
  raw_id :: jsstring
  raw_date :: date
  raw_amount :: int
  raw_description :: "jsstring option"
  raw_memo :: "jsstring option"

text \<open>\<^verbatim>\<open>x || ''\<close>.\<close>

definition or_empty :: "jsstring option \<Rightarrow> jsstring" where
  "or_empty x = (case x of None \<Rightarrow> [] | Some s \<Rightarrow> s)"

text \<open>
  \<^verbatim>\<open>updateStmt.run\<close> on the row with the record's id: the six data columns are set, the
  others are not named by the \<^verbatim>\<open>UPDATE\<close>.
\<close>

definition updated_row :: "string \<Rightarrow> raw_txn \<Rightarrow> txn \<Rightarrow> txn" where
  "updated_row acct x r =
     r\<lparr>date := raw_date x, amount := raw_amount x,
       description := or_empty (raw_description x),
       memo := or_empty (raw_memo x), account := acct,
       txn_type := (if raw_amount x > 0 then Income else Expense)\<rparr>"

text \<open>
  The row \<^verbatim>\<open>insertStmt.run\<close> adds: \<^verbatim>\<open>is_transfer\<close> is auto-detected, the columns the
  \<^verbatim>\<open>INSERT\<close> does not name take their defaults (NULL, 0).
\<close>

definition inserted_row :: "(jsstring \<Rightarrow> jsstring) \<Rightarrow> string \<Rightarrow> raw_txn \<Rightarrow> txn" where
  "inserted_row lc acct x =
     \<lparr>txn_id = raw_id x, date = raw_date x, amount = raw_amount x,
      description = or_empty (raw_description x),
      memo = or_empty (raw_memo x), account = acct,
      txn_type = (if raw_amount x > 0 then Income else Expense),
      category_id = None,
      is_transfer = isTransfer lc (raw_description x),
      is_investment = False, user_comment = None,
      is_occasional_income = False\<rparr>"



subsection \<open>Categorising a transaction\<close>

text \<open>
  \<^verbatim>\<open>setTransactionCategory(transactionId, categoryId)\<close>; a \<^verbatim>\<open>null\<close> category is \<open>None\<close>.
  The three statements are the \<^verbatim>\<open>UPDATE\<close> of the row, the rule upsert with its cascade
  (guarded by \<^verbatim>\<open>txn && txn.description && categoryId\<close>) and the rule deletion (guarded by
  \<^verbatim>\<open>!categoryId && transactionId\<close>, then \<^verbatim>\<open>txnForRule && txnForRule.description\<close>).

  The table \<^verbatim>\<open>category_rules\<close> declares \<^verbatim>\<open>FOREIGN KEY (category_id) REFERENCES
  categories(id)\<close>, and the database is opened by better-sqlite3, which enforces foreign
  keys: the rule upsert (its \<^verbatim>\<open>INSERT\<close> as well as its \<^verbatim>\<open>DO UPDATE\<close>) raises when the
  category id is not the id of a stored category. The statements do not run in a
  transaction, so the first \<^verbatim>\<open>UPDATE\<close> stays, and what follows the failing statement does
  not run. The function returns the store it leaves and the exception it raised, if any.
\<close>

datatype sqlite_error = ForeignKeyConstraintFailed

definition truthy :: "'a list option \<Rightarrow> bool" where
  "truthy x = (case x of None \<Rightarrow> False | Some s \<Rightarrow> s \<noteq> [])"

text \<open>The second block (lines 399 to 416), run on the store the first \<^verbatim>\<open>UPDATE\<close> left.\<close>

definition upsert_rule_and_cascade ::
  "db \<Rightarrow> jsstring \<Rightarrow> string option \<Rightarrow> sqlite_error + db" where
  "upsert_rule_and_cascade d1 transactionId categoryId =
     (case find (\<lambda>r. txn_id r = transactionId) (tbl_transactions d1) of
        None \<Rightarrow> Inr d1
      | Some row \<Rightarrow>
          if description row \<noteq> [] \<and> truthy categoryId then
            (if list_ex (\<lambda>c. Some (cat_id c) = categoryId) (tbl_categories d1) then
               Inr (d1\<lparr>tbl_category_rules :=
                          (tbl_category_rules d1)(description row := categoryId),
                        tbl_transactions :=
                          map (\<lambda>r. if description r = description row \<and>
                                      (category_id r = None \<or> category_id r = Some [])
                                   then r\<lparr>category_id := categoryId\<rparr> else r)
                              (tbl_transactions d1)\<rparr>)
             else Inl ForeignKeyConstraintFailed)
          else Inr d1)"

text \<open>The third block (lines 419 to 424).\<close>

definition delete_rule_when_cleared :: "db \<Rightarrow> jsstring \<Rightarrow> string option \<Rightarrow> db" where
  "delete_rule_when_cleared d2 transactionId categoryId =
     (if \<not> truthy categoryId \<and> transactionId \<noteq> [] then
        (case find (\<lambda>r. txn_id r = transactionId) (tbl_transactions d2) of
           None \<Rightarrow> d2
         | Some txnForRule \<Rightarrow>
             if description txnForRule \<noteq> [] then
               d2\<lparr>tbl_category_rules :=
                     (tbl_category_rules d2)(description txnForRule := None)\<rparr>
             else d2)
      else d2)"

definition setTransactionCategory ::
  "db \<Rightarrow> jsstring \<Rightarrow> string option \<Rightarrow> db \<times> sqlite_error option" where
  "setTransactionCategory d transactionId categoryId =
     (let d1 = d\<lparr>tbl_transactions :=
                   map (\<lambda>r. if txn_id r = transactionId then r\<lparr>category_id := categoryId\<rparr>
                            else r) (tbl_transactions d)\<rparr>
      in case upsert_rule_and_cascade d1 transactionId categoryId of
           Inl e \<Rightarrow> (d1, Some e)
         | Inr d2 \<Rightarrow> (delete_rule_when_cleared d2 transactionId categoryId, None))"

subsection \<open>Single-field mutations\<close>

definition setTransactionInvestment :: "db \<Rightarrow> jsstring \<Rightarrow> bool \<Rightarrow> db" where
  "setTransactionInvestment d transactionId isInvestment =
     d\<lparr>tbl_transactions :=
          map (\<lambda>r. if txn_id r = transactionId
                   then r\<lparr>is_investment := isInvestment, is_transfer := False\<rparr>
                   else r)
              (tbl_transactions d)\<rparr>"

subsection \<open>Properties used in the statements\<close>

text \<open>A calendar date: month 1 to 12, day 1 to 31.\<close>

definition valid_date :: "date \<Rightarrow> bool" where
  "valid_date d = (1 \<le> getMonth1 d \<and> getMonth1 d \<le> 12 \<and> 1 \<le> getDate d \<and> getDate d \<le> 31)"

text \<open>Months counted from year 0, so that consecutive calendar months differ by one.\<close>

definition month_index :: "int \<Rightarrow> int \<Rightarrow> int" where
  "month_index year month = year * 12 + (month - 1)"

definition matches_bill_pattern :: "txn \<Rightarrow> bool" where
  "matches_bill_pattern t =
     (isSalaryTransaction (description t) (amount t) \<or> isCreditCardTransaction (description t))"

text \<open>The sums the statements speak of.\<close>

definition sum_positive :: "txn list \<Rightarrow> int" where
  "sum_positive ts = sum_list (map amount (filter (\<lambda>t. amount t > 0) ts))"

definition sum_abs_negative :: "txn list \<Rightarrow> int" where
  "sum_abs_negative ts = sum_list (map (\<lambda>t. \<bar>amount t\<bar>) (filter (\<lambda>t. amount t < 0) ts))"

definition sum_abs :: "txn list \<Rightarrow> int" where
  "sum_abs ts = sum_list (map (\<lambda>t. \<bar>amount t\<bar>) ts)"

definition empty_bucket :: bucket where
  "empty_bucket = \<lparr>bk_income = 0, bk_expenses = 0, bk_transactions = []\<rparr>"

text \<open>
  The expense total of a category key in a logical month, the calendar month with a given
  index, the \<open>n\<close> calendar months strictly before a month (nearest first) and a key's
  expense totals over them.
\<close>

definition category_expense :: "db \<Rightarrow> string \<Rightarrow> int \<Rightarrow> int \<Rightarrow> int" where
  "category_expense d c y m =
     sum_abs_negative (filter (\<lambda>t. category_key t = c) (ms_transactions (getMonthlySummary d y m)))"

definition month_of_index :: "int \<Rightarrow> int \<times> int" where
  "month_of_index i = (i div 12, i mod 12 + 1)"

definition months_before :: "int \<Rightarrow> int \<Rightarrow> nat \<Rightarrow> (int \<times> int) list" where
  "months_before year month n =
     map (\<lambda>j. month_of_index (month_index year month - int j)) [1 ..< Suc n]"

definition window_totals :: "db \<Rightarrow> string \<Rightarrow> int \<Rightarrow> int \<Rightarrow> nat \<Rightarrow> int list" where
  "window_totals d c year month n =
     map (\<lambda>ym. category_expense d c (fst ym) (snd ym)) (months_before year month n)"

text \<open>Regular and occasional income of a logical month, over its counted transactions.\<close>

definition regular_income :: "db \<Rightarrow> int \<Rightarrow> int \<Rightarrow> int" where
  "regular_income d y m =
     sum_list (map amount (filter (\<lambda>t. amount t > 0 \<and> \<not> is_occasional_income t)
       (filter (\<lambda>t. \<not> is_transfer t \<and> \<not> is_investment t) (getTransactionsByIsraeliMonth d y m))))"

definition occasional_income :: "db \<Rightarrow> int \<Rightarrow> int \<Rightarrow> int" where
  "occasional_income d y m =
     sum_list (map amount (filter (\<lambda>t. amount t > 0 \<and> is_occasional_income t)
       (filter (\<lambda>t. \<not> is_transfer t \<and> \<not> is_investment t) (getTransactionsByIsraeliMonth d y m))))"

text \<open>
  The average the budget loop reads for a bucket key (\<^verbatim>\<open>averages[catId] || 0\<close>):
  \<^verbatim>\<open>getAllCategoryAverages\<close> fills the ids of the stored categories and \<^verbatim>\<open>uncategorized\<close>; any
  other key reads as undefined, hence 0.
\<close>

definition average_read :: "db \<Rightarrow> string \<Rightarrow> int \<Rightarrow> int \<Rightarrow> int" where
  "average_read d k year month =
     (if k = ''uncategorized'' \<or> k \<in> cat_id ` set (tbl_categories d)
      then getCategoryAverage d k year month 3 else 0)"

text \<open>
  The year a transaction is resolved to: the previous year for a salary or credit-card
  match dated 1 to 3 January, its calendar year otherwise; and the rows a year-to-date
  summary counts.
\<close>

definition resolved_year :: "txn \<Rightarrow> int" where
  "resolved_year t =
     (if getMonth1 (date t) = 1 \<and> getDate (date t) \<le> 3 \<and> matches_bill_pattern t
      then getFullYear (date t) - 1 else getFullYear (date t))"

definition ytd_counted :: "db \<Rightarrow> int \<Rightarrow> txn list" where
  "ytd_counted d year =
     filter (\<lambda>t. \<not> is_transfer t \<and> resolved_year t = year) (tbl_transactions d)"


subsection \<open>Example data\<close>

definition salary_text :: jsstring where
  "salary_text = [1502, 1513, 1499, 1493, 1512, 1514, 32, 1508, 1489, 1512, 1493, 1488, 1512]"

definition grocery_text :: jsstring where
  "grocery_text = [115, 104, 117, 102, 101, 114, 115, 97, 108]"

definition mk_txn :: "jsstring \<Rightarrow> date \<Rightarrow> int \<Rightarrow> jsstring \<Rightarrow> txn" where
  "mk_txn i dt a desc =
     \<lparr>txn_id = i, date = dt, amount = a, description = desc, memo = [],
      account = ''Hapoalim'', txn_type = (if a > 0 then Income else Expense),
      category_id = None, is_transfer = False, is_investment = False,
      user_comment = None, is_occasional_income = False\<rparr>"

definition ex_salary_feb :: txn where
  "ex_salary_feb = mk_txn [49] (2024, 2, 1) 1300000 salary_text"

definition ex_grocery_feb :: txn where
  "ex_grocery_feb = mk_txn [50] (2024, 2, 2) (- 4500) grocery_text"

definition ex_db :: db where
  "ex_db = \<lparr>tbl_transactions = [ex_salary_feb, ex_grocery_feb], tbl_categories = [],
            tbl_category_rules = Map.empty, tbl_settings = Map.empty\<rparr>"

definition ex_flagged :: txn where
  "ex_flagged = (mk_txn [51] (2024, 3, 15) (- 100000) grocery_text)
                  \<lparr>is_transfer := True, is_investment := True\<rparr>"

definition ex_flagged_db :: db where
  "ex_flagged_db = \<lparr>tbl_transactions = [ex_flagged, ex_grocery_feb], tbl_categories = [],
                    tbl_category_rules = Map.empty, tbl_settings = Map.empty\<rparr>"

text \<open>
  A store with two categories (one of them the variable-expenses category), a rent
  payment in February and, in April, three counted expenses, a salary, an occasional
  gift, two transfers and an investment.
\<close>

definition rent_text :: jsstring where
  "rent_text = [114, 101, 110, 116]"

definition gift_text :: jsstring where
  "gift_text = [103, 105, 102, 116]"

definition cafe_text :: jsstring where
  "cafe_text = [99, 97, 102, 101]"

definition ex_categories :: "category list" where
  "ex_categories =
     [\<lparr>cat_id = ''cat-2'', cat_name = VARIABLE_EXPENSES_NAME, cat_color = ''#6366f1''\<rparr>,
      \<lparr>cat_id = ''cat-1'', cat_name = rent_text, cat_color = ''#6366f1''\<rparr>]"

definition ex_budget_txns :: "txn list" where
  "ex_budget_txns =
     [(mk_txn [49] (2024, 2, 10) (- 120) rent_text)\<lparr>category_id := Some ''cat-1''\<rparr>,
      (mk_txn [50] (2024, 4, 10) (- 50) rent_text)\<lparr>category_id := Some ''cat-1''\<rparr>,
      (mk_txn [51] (2024, 4, 11) (- 30) cafe_text)\<lparr>category_id := Some ''cat-2''\<rparr>,
      mk_txn [52] (2024, 4, 12) (- 90) grocery_text,
      mk_txn [53] (2024, 4, 5) 1000 salary_text,
      (mk_txn [54] (2024, 4, 6) 200 gift_text)\<lparr>is_occasional_income := True\<rparr>,
      (mk_txn [55] (2024, 4, 7) (- 500) grocery_text)\<lparr>is_transfer := True\<rparr>,
      (mk_txn [56] (2024, 4, 8) (- 700) grocery_text)\<lparr>is_investment := True\<rparr>,
      (mk_txn [57] (2024, 4, 9) 40 grocery_text)\<lparr>is_transfer := True, is_investment := True\<rparr>]"

definition ex_budget_db :: db where
  "ex_budget_db =
     \<lparr>tbl_transactions = ex_budget_txns, tbl_categories = ex_categories,
      tbl_category_rules = Map.empty,
      tbl_settings = [ExpectedIncome \<mapsto> Some 1500, SavingsGoal \<mapsto> Some 2000]\<rparr>"

text \<open>A store holding one salary, and the same store with an expected-income override.\<close>

definition ex_pay_db :: db where
  "ex_pay_db = \<lparr>tbl_transactions = [mk_txn [49] (2024, 1, 15) 1300000 salary_text],
                tbl_categories = [], tbl_category_rules = Map.empty,
                tbl_settings = Map.empty\<rparr>"

definition ex_override_db :: db where
  "ex_override_db = ex_pay_db\<lparr>tbl_settings := [ExpectedIncome \<mapsto> Some 1400000]\<rparr>"

text \<open>
  A store with a salary and a purchase on 2 January 2025, a salary on 1 January 2024, an
  investment, a transfer and a purchase in 2024.
\<close>

definition ex_ytd_db :: db where
  "ex_ytd_db =
     \<lparr>tbl_transactions =
        [mk_txn [49] (2025, 1, 2) 1300000 salary_text,
         mk_txn [50] (2025, 1, 2) (- 4500) grocery_text,
         mk_txn [51] (2024, 1, 1) 1200000 salary_text,
         (mk_txn [52] (2024, 3, 20) (- 70000) grocery_text)\<lparr>is_investment := True\<rparr>,
         (mk_txn [53] (2024, 5, 20) (- 900) grocery_text)\<lparr>is_transfer := True\<rparr>,
         mk_txn [54] (2024, 6, 20) (- 800) grocery_text],
      tbl_categories = [], tbl_category_rules = Map.empty, tbl_settings = Map.empty\<rparr>"

text \<open>
  A store without categories whose two rows, of February and April, carry the category
  id of a category that is not stored.
\<close>

definition ex_dangling_db :: db where
  "ex_dangling_db =
     \<lparr>tbl_transactions =
        [(mk_txn [49] (2024, 2, 10) (- 120) rent_text)\<lparr>category_id := Some ''cat-7''\<rparr>,
         (mk_txn [50] (2024, 4, 10) (- 50) rent_text)\<lparr>category_id := Some ''cat-7''\<rparr>],
      tbl_categories = [], tbl_category_rules = Map.empty, tbl_settings = Map.empty\<rparr>"




text \<open>
  Two stored categories; two rows without a description; and a store where four rows
  share a description (two uncategorised, one in another category, one with the empty
  category) under a rule.
\<close>

definition ex_two_categories :: "category list" where
  "ex_two_categories =
     [\<lparr>cat_id = ''cat-1'', cat_name = rent_text, cat_color = ''#6366f1''\<rparr>,
      \<lparr>cat_id = ''cat-9'', cat_name = cafe_text, cat_color = ''#6366f1''\<rparr>]"

definition ex_blank_a :: txn where
  "ex_blank_a = mk_txn [49] (2024, 3, 15) (- 4500) []"

definition ex_blank_b :: txn where
  "ex_blank_b = mk_txn [50] (2024, 3, 16) (- 1200) []"

definition ex_blank_db :: db where
  "ex_blank_db = \<lparr>tbl_transactions = [ex_blank_a, ex_blank_b],
                  tbl_categories = ex_two_categories,
                  tbl_category_rules = Map.empty, tbl_settings = Map.empty\<rparr>"

definition ex_rule_t :: txn where
  "ex_rule_t = mk_txn [49] (2024, 3, 15) (- 4500) grocery_text"

definition ex_rule_db :: db where
  "ex_rule_db =
     \<lparr>tbl_transactions =
        [ex_rule_t,
         mk_txn [50] (2024, 3, 16) (- 1200) grocery_text,
         (mk_txn [51] (2024, 3, 17) (- 800) grocery_text)\<lparr>category_id := Some ''cat-9''\<rparr>,
         (mk_txn [52] (2024, 3, 18) (- 700) grocery_text)\<lparr>category_id := Some []\<rparr>,
         mk_txn [53] (2024, 3, 19) (- 600) cafe_text],
      tbl_categories = ex_two_categories,
      tbl_category_rules = [grocery_text \<mapsto> ''cat-9''],
      tbl_settings = Map.empty\<rparr>"

section \<open>Theorems\<close>

subsection \<open>Marking an investment\<close>

text \<open>
  C10. \<^verbatim>\<open>setTransactionInvestment(id, b)\<close> sets \<^verbatim>\<open>is_investment\<close> to b and \<^verbatim>\<open>is_transfer\<close>
  to 0 on the row with that id, whatever b is: with b false a transfer flag carried by the
  row is cleared as well. Every other column of the row and every other row and table are
  left as they were.
\<close>

theorem setTransactionInvestment_clears_transfer:
  "length (tbl_transactions (setTransactionInvestment d i b)) = length (tbl_transactions d) \<and>
   (\<forall>k < length (tbl_transactions d).
      let r = tbl_transactions d ! k; r' = tbl_transactions (setTransactionInvestment d i b) ! k
      in if txn_id r = i
         then r' = r\<lparr>is_investment := b, is_transfer := False\<rparr>
         else r' = r) \<and>
   tbl_categories (setTransactionInvestment d i b) = tbl_categories d \<and>
   tbl_category_rules (setTransactionInvestment d i b) = tbl_category_rules d \<and>
   tbl_settings (setTransactionInvestment d i b) = tbl_settings d"
  by (simp add: setTransactionInvestment_def Let_def)

theorem setTransactionInvestment_clears_transfer_witness:
  "is_transfer (tbl_transactions ex_flagged_db ! 0) \<and>
   txn_id (tbl_transactions ex_flagged_db ! 0) = [51] \<and>
   tbl_transactions (setTransactionInvestment ex_flagged_db [51] False) ! 0 =
     ex_flagged\<lparr>is_investment := False, is_transfer := False\<rparr> \<and>
   \<not> is_transfer (tbl_transactions (setTransactionInvestment ex_flagged_db [51] False) ! 0) \<and>
   tbl_transactions (setTransactionInvestment ex_flagged_db [51] False) ! 1 = ex_grocery_feb"
proof -
  have len: "(0::nat) < length (tbl_transactions ex_flagged_db)"
            "(1::nat) < length (tbl_transactions ex_flagged_db)"
    by (simp_all add: ex_flagged_db_def)
  note main = setTransactionInvestment_clears_transfer [of ex_flagged_db "[51]" False]
  from main len(1) have r0:
    "tbl_transactions (setTransactionInvestment ex_flagged_db [51] False) ! 0 =
       ex_flagged\<lparr>is_investment := False, is_transfer := False\<rparr>"
    by (simp add: Let_def ex_flagged_db_def ex_flagged_def mk_txn_def)
  from main len(2) have r1:
    "tbl_transactions (setTransactionInvestment ex_flagged_db [51] False) ! 1 = ex_grocery_feb"
    by (simp add: Let_def ex_flagged_db_def ex_grocery_feb_def mk_txn_def)
  show ?thesis
    using r0 r1 by (simp add: ex_flagged_db_def ex_flagged_def mk_txn_def)
qed

subsection \<open>Month attribution\<close>

lemma set_select_between_desc:
  "set (select_between_desc d lo hi) =
     {r \<in> set (tbl_transactions d). lo \<le> date r \<and> date r \<le> hi}"
  by (auto simp: select_between_desc_def)

lemma month_index_next:
  assumes "1 \<le> month" "month \<le> 12" "1 \<le> m" "m \<le> 12"
  shows "month_index y m = month_index year month + 1 \<longleftrightarrow>
         (y = (if month + 1 > 12 then year + 1 else year) \<and>
          m = (if month + 1 > 12 then 1 else month + 1))"
  using assms unfolding month_index_def by (auto; presburger)

text \<open>
  C1. For a target month 1 to 12 and a stored transaction with a calendar date, the
  transaction is in the result of \<^verbatim>\<open>getTransactionsByIsraeliMonth(year, month)\<close> exactly when
  (a) it is dated in the target month after the 3rd, or (b) it is dated in the target month
  on the 1st to 3rd and matches neither a salary pattern (which needs a positive amount)
  nor a credit-card pattern, or (c) it is dated in the calendar month right after the
  target (December is followed by January of the next year) on the 1st to 3rd and matches
  a salary or credit-card pattern. Nothing that is not stored is returned.
\<close>

theorem israeli_month_membership:
  assumes "1 \<le> month" "month \<le> 12" "valid_date (date t)"
  shows "t \<in> set (getTransactionsByIsraeliMonth d year month) \<longleftrightarrow>
     t \<in> set (tbl_transactions d) \<and>
     ((getFullYear (date t) = year \<and> getMonth1 (date t) = month \<and> getDate (date t) > 3) \<or>
      (getFullYear (date t) = year \<and> getMonth1 (date t) = month \<and> getDate (date t) \<le> 3 \<and>
         \<not> isSalaryTransaction (description t) (amount t) \<and>
         \<not> isCreditCardTransaction (description t)) \<or>
      (month_index (getFullYear (date t)) (getMonth1 (date t)) = month_index year month + 1 \<and>
         getDate (date t) \<le> 3 \<and>
         (isSalaryTransaction (description t) (amount t) \<or>
          isCreditCardTransaction (description t))))"
proof -
  obtain y m dd where dt: "date t = (y, m, dd)"
    by (cases "date t") auto
  from assms(3) dt have v: "1 \<le> m" "m \<le> 12" "1 \<le> dd" "dd \<le> 31"
    by (simp_all add: valid_date_def getMonth1_def getDate_def)
  note nx = month_index_next [OF assms(1,2) v(1,2), of y year]
  show ?thesis
    using assms(1,2) v
    unfolding getTransactionsByIsraeliMonth_def Let_def set_filter set_select_between_desc
      israeli_month_filter_def BILL_CUTOFF_DAY_def
    apply (simp only: dt getFullYear_def getMonth1_def getDate_def fst_conv snd_conv nx
        mem_Collect_eq less_eq_prod_simp)
    by auto
qed

lemmas example_defs =
  ex_db_def ex_salary_feb_def ex_grocery_feb_def mk_txn_def salary_text_def grocery_text_def
  valid_date_def getFullYear_def getMonth1_def getDate_def month_index_def
  isSalaryTransaction_def isCreditCardTransaction_def SALARY_PATTERNS_def
  CREDIT_CARD_PATTERNS_def

text \<open>
  The salary of 1 February 2024 is attributed to January and not to February; the
  purchase of 2 February stays in February.
\<close>

theorem israeli_month_membership_witness:
  "ex_salary_feb \<in> set (getTransactionsByIsraeliMonth ex_db 2024 1) \<and>
   ex_salary_feb \<notin> set (getTransactionsByIsraeliMonth ex_db 2024 2) \<and>
   ex_grocery_feb \<in> set (getTransactionsByIsraeliMonth ex_db 2024 2) \<and>
   ex_grocery_feb \<notin> set (getTransactionsByIsraeliMonth ex_db 2024 1)"
proof -
  have a: "ex_salary_feb \<in> set (getTransactionsByIsraeliMonth ex_db 2024 1)"
    using israeli_month_membership [of 1 ex_salary_feb ex_db 2024]
    by (simp add: example_defs)
  have b: "ex_salary_feb \<notin> set (getTransactionsByIsraeliMonth ex_db 2024 2)"
    using israeli_month_membership [of 2 ex_salary_feb ex_db 2024]
    by (simp add: example_defs)
  have c: "ex_grocery_feb \<in> set (getTransactionsByIsraeliMonth ex_db 2024 2)"
    using israeli_month_membership [of 2 ex_grocery_feb ex_db 2024]
    by (simp add: example_defs)
  have e: "ex_grocery_feb \<notin> set (getTransactionsByIsraeliMonth ex_db 2024 1)"
    using israeli_month_membership [of 1 ex_grocery_feb ex_db 2024]
    by (simp add: example_defs)
  from a b c e show ?thesis by simp
qed

subsection \<open>Monthly summary\<close>

lemma sum_positive_simps [simp]:
  "sum_positive [] = 0"
  "sum_positive (t # ts) = (if amount t > 0 then amount t else 0) + sum_positive ts"
  by (simp_all add: sum_positive_def)

lemma sum_abs_negative_simps [simp]:
  "sum_abs_negative [] = 0"
  "sum_abs_negative (t # ts) = (if amount t > 0 then 0 else \<bar>amount t\<bar>) + sum_abs_negative ts"
  by (simp_all add: sum_abs_negative_def)

lemma sum_abs_simps [simp]:
  "sum_abs [] = 0"
  "sum_abs (t # ts) = \<bar>amount t\<bar> + sum_abs ts"
  by (simp_all add: sum_abs_def)

lemma classify_step_fields:
  "t_income (classify_step x a) =
     t_income a +
     (if \<not> is_transfer x \<and> \<not> is_investment x \<and> amount x > 0 then amount x else 0)"
  "t_expenses (classify_step x a) =
     t_expenses a +
     (if \<not> is_transfer x \<and> \<not> is_investment x \<and> \<not> amount x > 0 then \<bar>amount x\<bar> else 0)"
  "t_transfersIn (classify_step x a) =
     t_transfersIn a + (if is_transfer x \<and> amount x > 0 then amount x else 0)"
  "t_transfersOut (classify_step x a) =
     t_transfersOut a + (if is_transfer x \<and> \<not> amount x > 0 then \<bar>amount x\<bar> else 0)"
  "t_investmentTotal (classify_step x a) =
     t_investmentTotal a + (if \<not> is_transfer x \<and> is_investment x then \<bar>amount x\<bar> else 0)"
  "t_transactions (classify_step x a) =
     t_transactions a @ (if \<not> is_transfer x \<and> \<not> is_investment x then [x] else [])"
  "t_transfers (classify_step x a) = t_transfers a @ (if is_transfer x then [x] else [])"
  "t_investments (classify_step x a) =
     t_investments a @ (if \<not> is_transfer x \<and> is_investment x then [x] else [])"
  by (simp_all add: classify_step_def)

text \<open>The first loop, in closed form.\<close>

lemma fold_classify_step:
  "fold classify_step xs a =
     \<lparr>t_income =
        t_income a + sum_positive (filter (\<lambda>t. \<not> is_transfer t \<and> \<not> is_investment t) xs),
      t_expenses =
        t_expenses a + sum_abs_negative (filter (\<lambda>t. \<not> is_transfer t \<and> \<not> is_investment t) xs),
      t_transfersIn = t_transfersIn a + sum_positive (filter is_transfer xs),
      t_transfersOut = t_transfersOut a + sum_abs_negative (filter is_transfer xs),
      t_investmentTotal =
        t_investmentTotal a + sum_abs (filter (\<lambda>t. \<not> is_transfer t \<and> is_investment t) xs),
      t_transactions =
        t_transactions a @ filter (\<lambda>t. \<not> is_transfer t \<and> \<not> is_investment t) xs,
      t_transfers = t_transfers a @ filter is_transfer xs,
      t_investments =
        t_investments a @ filter (\<lambda>t. \<not> is_transfer t \<and> is_investment t) xs\<rparr>"
proof (induction xs arbitrary: a)
  case Nil
  show ?case by simp
next
  case (Cons x xs)
  show ?case
    by (simp add: Cons.IH classify_step_fields)
qed

lemma map_of_group_step:
  "map_of (group_step t acc) k =
     (if k = category_key t
      then Some (add_to_bucket t (case map_of acc k of None \<Rightarrow> empty_bucket | Some b \<Rightarrow> b))
      else map_of acc k)"
proof -
  have m: "map_of (map (\<lambda>(k', b). if k' = c then (k', f b) else (k', b)) l) k =
           map_option (\<lambda>b. if k = c then f b else b) (map_of l k)"
    for c f and l :: "(string \<times> bucket) list"
    by (induction l) auto
  show ?thesis
  proof (cases "map_of acc (category_key t)")
    case None
    then show ?thesis
      unfolding group_step_def Let_def m
      by (simp add: empty_bucket_def map_add_def split: option.splits)
  next
    case (Some b)
    then show ?thesis
      unfolding group_step_def Let_def m
      by (simp add: option.map_ident)
  qed
qed

lemma keys_group_step:
  "map fst (group_step t acc) =
     (if category_key t \<in> set (map fst acc) then map fst acc
      else map fst acc @ [category_key t])"
proof -
  have m: "map fst (map (\<lambda>(k', b). if k' = c then (k', f b) else (k', b)) l) = map fst l"
    for c f and l :: "(string \<times> bucket) list"
    by (induction l) auto
  show ?thesis
    unfolding group_step_def Let_def m
    by (auto simp: map_of_eq_None_iff)
qed

lemma keys_group_step_set:
  "fst ` set (group_step t acc) = insert (category_key t) (fst ` set acc)"
  using keys_group_step [of t acc, THEN arg_cong, of set] by (auto split: if_splits)

lemma fold_add_to_bucket:
  "fold add_to_bucket ts b =
     \<lparr>bk_income = bk_income b + sum_positive ts,
      bk_expenses = bk_expenses b + sum_abs_negative ts,
      bk_transactions = bk_transactions b @ ts\<rparr>"
  by (induction ts arbitrary: b) (simp_all add: add_to_bucket_def)

text \<open>The grouping loop: what is stored under a key after the loop.\<close>

lemma map_of_fold_group_step:
  "map_of (fold group_step xs acc) k =
     (if filter (\<lambda>t. category_key t = k) xs = [] then map_of acc k
      else Some (fold add_to_bucket (filter (\<lambda>t. category_key t = k) xs)
                   (case map_of acc k of None \<Rightarrow> empty_bucket | Some b \<Rightarrow> b)))"
proof (induction xs arbitrary: acc)
  case Nil
  show ?case by simp
next
  case (Cons x xs)
  show ?case
    by (simp add: Cons.IH map_of_group_step)
qed

lemma distinct_fold_group_step:
  "distinct (map fst acc) \<Longrightarrow> distinct (map fst (fold group_step xs acc))"
  by (induction xs arbitrary: acc) (simp_all add: keys_group_step)

lemma keys_fold_group_step:
  "fst ` set (fold group_step xs acc) = fst ` set acc \<union> category_key ` set xs"
  by (induction xs arbitrary: acc) (simp_all add: keys_group_step_set)

lemma mset_three_way:
  "mset xs = mset (filter P xs) + mset (filter (\<lambda>t. \<not> P t \<and> Q t) xs) +
             mset (filter (\<lambda>t. \<not> P t \<and> \<not> Q t) xs)"
  by (induction xs) auto

lemma summary_fields:
  "ms_transfers (getMonthlySummary d y m) =
     filter is_transfer (getTransactionsByIsraeliMonth d y m)"
  "ms_investments (getMonthlySummary d y m) =
     filter (\<lambda>t. \<not> is_transfer t \<and> is_investment t) (getTransactionsByIsraeliMonth d y m)"
  "ms_transactions (getMonthlySummary d y m) =
     filter (\<lambda>t. \<not> is_transfer t \<and> \<not> is_investment t) (getTransactionsByIsraeliMonth d y m)"
  "ms_income (getMonthlySummary d y m) = sum_positive (ms_transactions (getMonthlySummary d y m))"
  "ms_expenses (getMonthlySummary d y m) =
     sum_abs_negative (ms_transactions (getMonthlySummary d y m))"
  "ms_investmentTotal (getMonthlySummary d y m) = sum_abs (ms_investments (getMonthlySummary d y m))"
  "ms_transfersIn (getMonthlySummary d y m) = sum_positive (ms_transfers (getMonthlySummary d y m))"
  "ms_transfersOut (getMonthlySummary d y m) =
     sum_abs_negative (ms_transfers (getMonthlySummary d y m))"
  "ms_balance (getMonthlySummary d y m) =
     ms_income (getMonthlySummary d y m) - ms_expenses (getMonthlySummary d y m)"
  "ms_transfersNet (getMonthlySummary d y m) =
     ms_transfersIn (getMonthlySummary d y m) - ms_transfersOut (getMonthlySummary d y m)"
  "ms_transactionCount (getMonthlySummary d y m) = length (ms_transactions (getMonthlySummary d y m))"
  "ms_byCategory (getMonthlySummary d y m) =
     fold group_step (ms_transactions (getMonthlySummary d y m)) []"
  by (simp_all add: getMonthlySummary_def Let_def fold_classify_step totals0_def)

lemma summary_bucket:
  "map_of (ms_byCategory (getMonthlySummary d y m)) k =
     (if k \<in> category_key ` set (ms_transactions (getMonthlySummary d y m))
      then Some \<lparr>bk_income =
                   sum_positive (filter (\<lambda>t. category_key t = k)
                                   (ms_transactions (getMonthlySummary d y m))),
                 bk_expenses =
                   sum_abs_negative (filter (\<lambda>t. category_key t = k)
                                       (ms_transactions (getMonthlySummary d y m))),
                 bk_transactions =
                   filter (\<lambda>t. category_key t = k) (ms_transactions (getMonthlySummary d y m))\<rparr>
      else None)"
  unfolding summary_fields(12) map_of_fold_group_step fold_add_to_bucket
  by (auto simp: empty_bucket_def filter_empty_conv)

lemma summary_keys:
  "distinct (map fst (ms_byCategory (getMonthlySummary d y m)))"
  "fst ` set (ms_byCategory (getMonthlySummary d y m)) =
     category_key ` set (ms_transactions (getMonthlySummary d y m))"
  unfolding summary_fields(12)
  by (simp_all add: distinct_fold_group_step keys_fold_group_step)

text \<open>
  C2. Writing \<open>attributed\<close> for the result of \<^verbatim>\<open>getTransactionsByIsraeliMonth(year, month)\<close>:
  the summary's transfers are the attributed rows flagged as transfer, its investments
  those not flagged as transfer but flagged as investment, its counted transactions the
  rest, so that every attributed row is in exactly one of the three lists. Income is the
  sum of the positive counted amounts, expenses the sum of the absolute values of the
  negative counted amounts, balance their difference; the investment total is the sum of
  the absolute investment amounts; transfers in and out are summed the same way by sign
  and their net is in minus out. A counted row's key is its category id, or
  \<^verbatim>\<open>uncategorized\<close> when the id is NULL or empty; the per-category dictionary has exactly
  one entry per key occurring among the counted rows, holding the counted rows of that
  key, the sum of their positive amounts as income and the sum of the absolute values of
  their negative amounts as expenses.
\<close>

theorem getMonthlySummary_buckets_and_totals:
  "let attributed = getTransactionsByIsraeliMonth d year month;
       s = getMonthlySummary d year month;
       transfers = filter is_transfer attributed;
       investments = filter (\<lambda>t. \<not> is_transfer t \<and> is_investment t) attributed;
       counted = filter (\<lambda>t. \<not> is_transfer t \<and> \<not> is_investment t) attributed;
       key = (\<lambda>t. case category_id t of
                     None \<Rightarrow> ''uncategorized''
                   | Some c \<Rightarrow> if c = [] then ''uncategorized'' else c)
   in ms_transfers s = transfers \<and> ms_investments s = investments \<and>
      ms_transactions s = counted \<and>
      mset attributed = mset transfers + mset investments + mset counted \<and>
      ms_income s = sum_positive counted \<and>
      ms_expenses s = sum_abs_negative counted \<and>
      ms_balance s = ms_income s - ms_expenses s \<and>
      ms_investmentTotal s = sum_abs investments \<and>
      ms_transfersIn s = sum_positive transfers \<and>
      ms_transfersOut s = sum_abs_negative transfers \<and>
      ms_transfersNet s = ms_transfersIn s - ms_transfersOut s \<and>
      ms_transactionCount s = length counted \<and>
      distinct (map fst (ms_byCategory s)) \<and>
      fst ` set (ms_byCategory s) = key ` set counted \<and>
      (\<forall>k. map_of (ms_byCategory s) k =
            (if k \<in> key ` set counted
             then Some \<lparr>bk_income = sum_positive (filter (\<lambda>t. key t = k) counted),
                        bk_expenses = sum_abs_negative (filter (\<lambda>t. key t = k) counted),
                        bk_transactions = filter (\<lambda>t. key t = k) counted\<rparr>
             else None))"
proof -
  let ?s = "getMonthlySummary d year month"
  have key: "(\<lambda>t :: txn. case category_id t of
                     None \<Rightarrow> ''uncategorized''
                   | Some c \<Rightarrow> if c = [] then ''uncategorized'' else c) = category_key"
    by (rule ext) (simp add: category_key_def UNCATEGORIZED_def split: option.splits)
  have b: "ms_balance ?s = ms_income ?s - ms_expenses ?s"
    and n: "ms_transfersNet ?s = ms_transfersIn ?s - ms_transfersOut ?s"
    by (rule summary_fields)+
  have k: "\<forall>k. map_of (ms_byCategory ?s) k =
            (if k \<in> category_key ` set (ms_transactions ?s)
             then Some \<lparr>bk_income =
                          sum_positive (filter (\<lambda>t. category_key t = k) (ms_transactions ?s)),
                        bk_expenses =
                          sum_abs_negative (filter (\<lambda>t. category_key t = k) (ms_transactions ?s)),
                        bk_transactions =
                          filter (\<lambda>t. category_key t = k) (ms_transactions ?s)\<rparr>
             else None)"
    by (rule allI) (rule summary_bucket)
  show ?thesis
    unfolding Let_def key
    using b n k summary_keys [of d year month]
      mset_three_way [of "getTransactionsByIsraeliMonth d year month" is_transfer is_investment]
    by (simp only: summary_fields(1-8,11)) simp
qed

text \<open>
  April of the example store: the split, the totals, and the three buckets, of which
  \<^verbatim>\<open>cat-1\<close> holds the rent of 50, \<^verbatim>\<open>cat-2\<close> the coffee of 30 and \<^verbatim>\<open>uncategorized\<close> the
  purchase, the gift and the salary that carry no category.
\<close>

theorem getMonthlySummary_buckets_and_totals_witness:
  "map txn_id (ms_transfers (getMonthlySummary ex_budget_db 2024 4)) = [[57], [55]] \<and>
   map txn_id (ms_investments (getMonthlySummary ex_budget_db 2024 4)) = [[56]] \<and>
   map txn_id (ms_transactions (getMonthlySummary ex_budget_db 2024 4)) =
     [[52], [51], [50], [54], [53]] \<and>
   ms_income (getMonthlySummary ex_budget_db 2024 4) = 1200 \<and>
   ms_expenses (getMonthlySummary ex_budget_db 2024 4) = 170 \<and>
   ms_balance (getMonthlySummary ex_budget_db 2024 4) = 1030 \<and>
   ms_investmentTotal (getMonthlySummary ex_budget_db 2024 4) = 700 \<and>
   ms_transfersNet (getMonthlySummary ex_budget_db 2024 4) = - 460 \<and>
   fst ` set (ms_byCategory (getMonthlySummary ex_budget_db 2024 4)) =
     {''uncategorized'', ''cat-2'', ''cat-1''} \<and>
   map_option (\<lambda>b. (bk_income b, bk_expenses b, map txn_id (bk_transactions b)))
     (map_of (ms_byCategory (getMonthlySummary ex_budget_db 2024 4)) ''cat-1'') =
     Some (0, 50, [[50]]) \<and>
   map_option (\<lambda>b. (bk_income b, bk_expenses b, map txn_id (bk_transactions b)))
     (map_of (ms_byCategory (getMonthlySummary ex_budget_db 2024 4)) ''cat-2'') =
     Some (0, 30, [[51]]) \<and>
   map_option (\<lambda>b. (bk_income b, bk_expenses b, map txn_id (bk_transactions b)))
     (map_of (ms_byCategory (getMonthlySummary ex_budget_db 2024 4)) ''uncategorized'') =
     Some (1200, 90, [[52], [54], [53]]) \<and>
   map_of (ms_byCategory (getMonthlySummary ex_budget_db 2024 4)) ''cat-9'' = None"
proof -
  let ?counted = "filter (\<lambda>t. \<not> is_transfer t \<and> \<not> is_investment t)
                    (getTransactionsByIsraeliMonth ex_budget_db 2024 4)"
  let ?key = "\<lambda>t. case category_id t of
                     None \<Rightarrow> ''uncategorized''
                   | Some c \<Rightarrow> if c = [] then ''uncategorized'' else c"
  note main = getMonthlySummary_buckets_and_totals [of ex_budget_db 2024 4, unfolded Let_def]
  have e:
    "map txn_id (filter is_transfer (getTransactionsByIsraeliMonth ex_budget_db 2024 4)) =
       [[57], [55]]"
    "map txn_id (filter (\<lambda>t. \<not> is_transfer t \<and> is_investment t)
       (getTransactionsByIsraeliMonth ex_budget_db 2024 4)) = [[56]]"
    "map txn_id ?counted = [[52], [51], [50], [54], [53]]"
    "sum_positive ?counted = 1200"
    "sum_abs_negative ?counted = 170"
    "sum_abs (filter (\<lambda>t. \<not> is_transfer t \<and> is_investment t)
       (getTransactionsByIsraeliMonth ex_budget_db 2024 4)) = 700"
    "sum_positive (filter is_transfer (getTransactionsByIsraeliMonth ex_budget_db 2024 4)) = 40"
    "sum_abs_negative (filter is_transfer (getTransactionsByIsraeliMonth ex_budget_db 2024 4)) = 500"
    by code_simp+
  from main e have totals:
    "map txn_id (ms_transfers (getMonthlySummary ex_budget_db 2024 4)) = [[57], [55]] \<and>
     map txn_id (ms_investments (getMonthlySummary ex_budget_db 2024 4)) = [[56]] \<and>
     map txn_id (ms_transactions (getMonthlySummary ex_budget_db 2024 4)) =
       [[52], [51], [50], [54], [53]] \<and>
     ms_income (getMonthlySummary ex_budget_db 2024 4) = 1200 \<and>
     ms_expenses (getMonthlySummary ex_budget_db 2024 4) = 170 \<and>
     ms_balance (getMonthlySummary ex_budget_db 2024 4) = 1030 \<and>
     ms_investmentTotal (getMonthlySummary ex_budget_db 2024 4) = 700 \<and>
     ms_transfersNet (getMonthlySummary ex_budget_db 2024 4) = - 460"
    by simp
  from main have keys:
    "fst ` set (ms_byCategory (getMonthlySummary ex_budget_db 2024 4)) = ?key ` set ?counted"
    and bucket: "\<And>k. map_of (ms_byCategory (getMonthlySummary ex_budget_db 2024 4)) k =
            (if k \<in> ?key ` set ?counted
             then Some \<lparr>bk_income = sum_positive (filter (\<lambda>t. ?key t = k) ?counted),
                        bk_expenses = sum_abs_negative (filter (\<lambda>t. ?key t = k) ?counted),
                        bk_transactions = filter (\<lambda>t. ?key t = k) ?counted\<rparr>
             else None)"
    by blast+
  have ks: "map ?key ?counted =
      [''uncategorized'', ''cat-2'', ''cat-1'', ''uncategorized'', ''uncategorized'']"
    by code_simp
  have kset: "?key ` set ?counted = {''uncategorized'', ''cat-2'', ''cat-1''}"
    using ks [THEN arg_cong, of set] by (simp only: set_map) auto
  have v:
    "sum_positive (filter (\<lambda>t. ?key t = ''cat-1'') ?counted) = 0"
    "sum_abs_negative (filter (\<lambda>t. ?key t = ''cat-1'') ?counted) = 50"
    "map txn_id (filter (\<lambda>t. ?key t = ''cat-1'') ?counted) = [[50]]"
    "sum_positive (filter (\<lambda>t. ?key t = ''cat-2'') ?counted) = 0"
    "sum_abs_negative (filter (\<lambda>t. ?key t = ''cat-2'') ?counted) = 30"
    "map txn_id (filter (\<lambda>t. ?key t = ''cat-2'') ?counted) = [[51]]"
    "sum_positive (filter (\<lambda>t. ?key t = ''uncategorized'') ?counted) = 1200"
    "sum_abs_negative (filter (\<lambda>t. ?key t = ''uncategorized'') ?counted) = 90"
    "map txn_id (filter (\<lambda>t. ?key t = ''uncategorized'') ?counted) = [[52], [54], [53]]"
    by code_simp+
  have b1: "map_option (\<lambda>b. (bk_income b, bk_expenses b, map txn_id (bk_transactions b)))
     (map_of (ms_byCategory (getMonthlySummary ex_budget_db 2024 4)) ''cat-1'') =
     Some (0, 50, [[50]])"
    unfolding bucket kset using v(1-3) by simp
  have b2: "map_option (\<lambda>b. (bk_income b, bk_expenses b, map txn_id (bk_transactions b)))
     (map_of (ms_byCategory (getMonthlySummary ex_budget_db 2024 4)) ''cat-2'') =
     Some (0, 30, [[51]])"
    unfolding bucket kset using v(4-6) by simp
  have b3: "map_option (\<lambda>b. (bk_income b, bk_expenses b, map txn_id (bk_transactions b)))
     (map_of (ms_byCategory (getMonthlySummary ex_budget_db 2024 4)) ''uncategorized'') =
     Some (1200, 90, [[52], [54], [53]])"
    unfolding bucket kset using v(7-9) by simp
  have b4: "map_of (ms_byCategory (getMonthlySummary ex_budget_db 2024 4)) ''cat-9'' = None"
    unfolding bucket kset by simp
  from totals keys kset b1 b2 b3 b4 show ?thesis
    by (simp only:)
qed


subsection \<open>Category averages\<close>

lemma js_round_div_round:
  "0 < n \<Longrightarrow> js_round_div s n = round (real_of_int s / real n)"
proof -
  assume n: "0 < n"
  have "real_of_int s / real n + 1 / 2 = real_of_int (2 * s + int n) / real_of_int (2 * int n)"
    using n by (simp add: field_simps)
  then have "round (real_of_int s / real n) = \<lfloor>real_of_int (2 * s + int n) / real_of_int (2 * int n)\<rfloor>"
    by (simp only: round_def)
  also have "\<dots> = (2 * s + int n) div (2 * int n)"
    by (rule floor_divide_of_int_eq)
  finally show ?thesis by (simp add: js_round_div_def)
qed

lemma prev_month_index:
  assumes "1 \<le> m" "m \<le> 12"
  shows "month_of_index (month_index y m - 1) =
           (if m - 1 < 1 then y - 1 else y, if m - 1 < 1 then 12 else m - 1)"
  using assms unfolding month_of_index_def month_index_def
  by (auto simp: Let_def; presburger)

lemma month_index_of_index:
  "month_index (fst (month_of_index i)) (snd (month_of_index i)) = i"
  unfolding month_of_index_def month_index_def by simp

lemma month_of_index_range:
  "1 \<le> snd (month_of_index i)" "snd (month_of_index i) \<le> 12"
  unfolding month_of_index_def by simp_all

lemma categoryTotal_eq:
  "(case map_of (ms_byCategory (getMonthlySummary d y m)) c of
      None \<Rightarrow> 0 | Some catData \<Rightarrow> bk_expenses catData) = category_expense d c y m"
proof -
  have "filter (\<lambda>t. category_key t = c) ts = []" if "c \<notin> category_key ` set ts" for ts
    using that by (auto simp: filter_empty_conv)
  then show ?thesis
    unfolding summary_bucket category_expense_def by simp
qed

lemma sum_abs_negative_nonneg: "0 \<le> sum_abs_negative ts"
  by (induction ts) auto

lemma category_expense_nonneg: "0 \<le> category_expense d c y m"
  by (simp add: category_expense_def sum_abs_negative_nonneg)

lemma category_totals_step:
  assumes "1 \<le> m" "m \<le> 12"
  shows "category_totals d c (Suc n) y m =
           category_expense d c (fst (month_of_index (month_index y m - 1)))
                                (snd (month_of_index (month_index y m - 1))) #
           category_totals d c n (fst (month_of_index (month_index y m - 1)))
                                 (snd (month_of_index (month_index y m - 1)))"
  by (simp add: Let_def categoryTotal_eq prev_month_index [OF assms])

lemma category_totals_closed:
  assumes "1 \<le> m" "m \<le> 12"
  shows "category_totals d c n y m =
           map (\<lambda>j. category_expense d c (fst (month_of_index (month_index y m - int j)))
                                         (snd (month_of_index (month_index y m - int j))))
               [1 ..< Suc n]"
  using assms
proof (induction n arbitrary: y m)
  case 0
  show ?case by simp
next
  case (Suc n)
  let ?p = "month_of_index (month_index y m - 1)"
  have ih: "category_totals d c n (fst ?p) (snd ?p) =
          map (\<lambda>j. category_expense d c (fst (month_of_index (month_index (fst ?p) (snd ?p) - int j)))
                                         (snd (month_of_index (month_index (fst ?p) (snd ?p) - int j))))
               [1 ..< Suc n]"
    by (rule Suc.IH) (rule month_of_index_range)+
  have shift: "[1 ..< Suc (Suc n)] = 1 # map Suc [1 ..< Suc n]"
    by (metis upt_conv_Cons zero_less_Suc map_Suc_upt less_Suc_eq_0_disj One_nat_def Suc_less_eq)
  show ?case
    unfolding category_totals_step [OF Suc.prems] ih month_index_of_index shift
    by (simp add: o_def algebra_simps)
qed


lemma filter_pos_nonneg:
  "\<forall>x \<in> set xs. (0::int) \<le> x \<Longrightarrow> filter (\<lambda>t. t > 0) xs = filter (\<lambda>t. t \<noteq> 0) xs"
  by (induction xs) auto

lemma rounded_mean:
  "(if length xs = 0 then 0 else js_round_div (sum_list xs) (length xs)) =
   (if xs = [] then 0 else round (real_of_int (sum_list xs) / real (length xs)))"
  by (cases xs) (simp_all add: js_round_div_round)

text \<open>
  C5. For a month 1 to 12, the totals \<^verbatim>\<open>getCategoryAverage\<close> collects are the category's expense
  totals (taken from the monthly summaries) of the calendar months strictly before it,
  nearest first; the months whose total is zero are dropped and the result is the mean of
  the others rounded to the nearest integer (\<^verbatim>\<open>Math.round\<close>), or 0 when none is left. In
  particular totals 0, 120, 0 give 120.
\<close>

theorem getCategoryAverage_skips_empty_months:
  assumes "1 \<le> month" "month \<le> 12"
  shows "let totals = window_totals d c year month n;
             nonzero = filter (\<lambda>t. t \<noteq> 0) totals
         in category_totals d c n year month = totals \<and>
            getCategoryAverage d c year month n =
              (if nonzero = [] then 0
               else round (real_of_int (sum_list nonzero) / real (length nonzero))) \<and>
            (totals = [0, 120, 0] \<longrightarrow> getCategoryAverage d c year month n = 120)"
proof -
  have t: "category_totals d c n year month = window_totals d c year month n"
    unfolding window_totals_def months_before_def category_totals_closed [OF assms]
    by (simp add: o_def)
  have nn: "\<forall>x \<in> set (window_totals d c year month n). 0 \<le> x"
    by (auto simp: window_totals_def category_expense_nonneg)
  have a: "getCategoryAverage d c year month n =
             (if filter (\<lambda>t. t \<noteq> 0) (window_totals d c year month n) = [] then 0
              else round (real_of_int (sum_list (filter (\<lambda>t. t \<noteq> 0) (window_totals d c year month n))) /
                          real (length (filter (\<lambda>t. t \<noteq> 0) (window_totals d c year month n)))))"
    unfolding getCategoryAverage_def average_nonzero_def Let_def t filter_pos_nonneg [OF nn]
    by (rule rounded_mean)
  have e: "getCategoryAverage d c year month n = 120" if "window_totals d c year month n = [0, 120, 0]"
    unfolding a that by simp
  show ?thesis
    unfolding Let_def using t a e by blast
qed

theorem getCategoryAverage_skips_empty_months_witness:
  "months_before 2024 4 3 = [(2024, 3), (2024, 2), (2024, 1)] \<and>
   window_totals ex_budget_db ''cat-1'' 2024 4 3 = [0, 120, 0] \<and>
   getCategoryAverage ex_budget_db ''cat-1'' 2024 4 3 = 120"
proof -
  have m: "months_before 2024 4 3 = [(2024, 3), (2024, 2), (2024, 1)]"
    by code_simp
  have w: "window_totals ex_budget_db ''cat-1'' 2024 4 3 = [0, 120, 0]"
    by code_simp
  from getCategoryAverage_skips_empty_months [of 4 ex_budget_db "''cat-1''" 2024 3] m w
  show ?thesis by (simp add: Let_def)
qed

subsection \<open>Expected income\<close>

lemma fold_conditional_sum:
  "fold (\<lambda>t acc. if P t then acc + amount t else acc) ts a =
     a + sum_list (map amount (filter P ts))"
  by (induction ts arbitrary: a) simp_all

lemma getRegularIncomeForMonth_eq:
  "getRegularIncomeForMonth d y m = regular_income d y m"
  by (simp add: getRegularIncomeForMonth_def regular_income_loop_def fold_conditional_sum
      regular_income_def summary_fields(3))

lemma getOccasionalIncomeForMonth_eq:
  "getOccasionalIncomeForMonth d y m = occasional_income d y m"
  by (simp add: getOccasionalIncomeForMonth_def occasional_income_loop_def fold_conditional_sum
      occasional_income_def summary_fields(3))

lemma regular_income_nonneg: "0 \<le> regular_income d y m"
  unfolding regular_income_def by (rule sum_list_nonneg) auto

lemma regular_incomes_step:
  assumes "1 \<le> m" "m \<le> 12"
  shows "regular_incomes d (Suc n) y m =
           filter (\<lambda>x. x > 0)
             [regular_income d (fst (month_of_index (month_index y m - 1)))
                               (snd (month_of_index (month_index y m - 1)))] @
           regular_incomes d n (fst (month_of_index (month_index y m - 1)))
                               (snd (month_of_index (month_index y m - 1)))"
  using getRegularIncomeForMonth_eq [unfolded getRegularIncomeForMonth_def]
  by (simp add: Let_def prev_month_index [OF assms])

lemma upt_shift: "[1 ..< Suc (Suc n)] = 1 # map Suc [1 ..< Suc n]"
  by (metis upt_conv_Cons zero_less_Suc map_Suc_upt less_Suc_eq_0_disj One_nat_def Suc_less_eq)

lemma regular_incomes_closed:
  assumes "1 \<le> m" "m \<le> 12"
  shows "regular_incomes d n y m =
           filter (\<lambda>x. x > 0)
             (map (\<lambda>ym. regular_income d (fst ym) (snd ym)) (months_before y m n))"
  using assms
proof (induction n arbitrary: y m)
  case 0
  show ?case by (simp add: months_before_def)
next
  case (Suc n)
  let ?p = "month_of_index (month_index y m - 1)"
  have ih: "regular_incomes d n (fst ?p) (snd ?p) =
          filter (\<lambda>x. x > 0)
             (map (\<lambda>ym. regular_income d (fst ym) (snd ym)) (months_before (fst ?p) (snd ?p) n))"
    by (rule Suc.IH) (rule month_of_index_range)+
  have mb: "months_before y m (Suc n) = ?p # months_before (fst ?p) (snd ?p) n"
    unfolding months_before_def month_index_of_index upt_shift
    by (simp add: o_def algebra_simps)
  show ?case
    unfolding regular_incomes_step [OF Suc.prems] ih mb
    by simp
qed

lemma Max_three: "Max {a, b, c :: int} = max (max a b) c"
  by (simp add: max.commute max.left_commute)

text \<open>
  C3. For a month 1 to 12 the budget's expected regular income is the maximum of the
  month's actual regular income, the expected-income setting and the average regular
  income of the three preceding months (the mean, rounded by \<^verbatim>\<open>Math.round\<close>, of those of the
  three months whose regular income is not zero, or 0), and its expected income adds the
  month's actual occasional income to that maximum. Regular income is the sum of the
  positive counted amounts not flagged occasional, occasional income the sum of those
  flagged occasional; no other month's occasional income enters.
\<close>

theorem expectedIncome_formula:
  assumes "1 \<le> month" "month \<le> 12"
  shows "let b = calculateAvailableBudget d year month;
             actualRegular = regular_income d year month;
             actualOccasional = occasional_income d year month;
             override = getExpectedIncome d;
             past = filter (\<lambda>x. x \<noteq> 0)
                      (map (\<lambda>ym. regular_income d (fst ym) (snd ym)) (months_before year month 3));
             average = (if past = [] then 0
                        else round (real_of_int (sum_list past) / real (length past)))
         in bd_actualRegularIncome b = actualRegular \<and>
            bd_actualOccasionalIncome b = actualOccasional \<and>
            bd_userExpectedIncome b = override \<and>
            bd_averageIncome b = average \<and>
            bd_expectedRegularIncome b = Max {actualRegular, override, average} \<and>
            bd_expectedIncome b = Max {actualRegular, override, average} + actualOccasional \<and>
            bd_income b = bd_expectedIncome b"
proof -
  let ?rs = "map (\<lambda>ym. regular_income d (fst ym) (snd ym)) (months_before year month 3)"
  have nn: "\<forall>x \<in> set ?rs. 0 \<le> x"
    by (auto simp: regular_income_nonneg)
  have avg: "getAverageRegularIncome d year month 3 =
               (if filter (\<lambda>x. x \<noteq> 0) ?rs = [] then 0
                else round (real_of_int (sum_list (filter (\<lambda>x. x \<noteq> 0) ?rs)) /
                            real (length (filter (\<lambda>x. x \<noteq> 0) ?rs))))"
    unfolding getAverageRegularIncome_def Let_def regular_incomes_closed [OF assms]
      filter_pos_nonneg [OF nn]
    by (rule rounded_mean)
  show ?thesis
    unfolding Let_def Max_three avg [symmetric]
    by (simp add: calculateAvailableBudget_def Let_def expectedIncome_def
        expectedRegularIncome_def getRegularIncomeForMonth_eq getOccasionalIncomeForMonth_eq)
qed

theorem expectedIncome_formula_witness:
  "regular_income ex_budget_db 2024 4 = 1000 \<and>
   occasional_income ex_budget_db 2024 4 = 200 \<and>
   getExpectedIncome ex_budget_db = 1500 \<and>
   bd_averageIncome (calculateAvailableBudget ex_budget_db 2024 4) = 0 \<and>
   bd_expectedRegularIncome (calculateAvailableBudget ex_budget_db 2024 4) = 1500 \<and>
   bd_expectedIncome (calculateAvailableBudget ex_budget_db 2024 4) = 1700"
proof -
  have e:
    "regular_income ex_budget_db 2024 4 = 1000"
    "occasional_income ex_budget_db 2024 4 = 200"
    "getExpectedIncome ex_budget_db = 1500"
    "map (\<lambda>ym. regular_income ex_budget_db (fst ym) (snd ym)) (months_before 2024 4 3) =
       [0, 0, 0]"
    by code_simp+
  from expectedIncome_formula [of 4 ex_budget_db 2024] e
  show ?thesis by (simp add: Let_def)
qed

lemma expectedIncome_mono:
  "a \<le> a' \<Longrightarrow> u \<le> u' \<Longrightarrow> v \<le> v' \<Longrightarrow> expectedIncome a u v x \<le> expectedIncome a' u' v' x"
  by (auto simp: expectedIncome_def expectedRegularIncome_def)

lemma budget_expected_fields:
  "bd_expectedIncome (calculateAvailableBudget d y m) =
     expectedIncome (bd_actualRegularIncome (calculateAvailableBudget d y m))
       (bd_userExpectedIncome (calculateAvailableBudget d y m))
       (bd_averageIncome (calculateAvailableBudget d y m))
       (bd_actualOccasionalIncome (calculateAvailableBudget d y m))"
  "bd_expectedIncome (calculateAvailableBudget d y m) =
     bd_expectedRegularIncome (calculateAvailableBudget d y m) +
     bd_actualOccasionalIncome (calculateAvailableBudget d y m)"
  by (simp_all add: calculateAvailableBudget_def Let_def expectedIncome_def)

text \<open>
  C9. Between any two budget calculations: if the actual regular income, the
  expected-income setting and the average regular income of the second are each at least
  those of the first (in particular when one grows and the other two are equal) and the
  occasional incomes are equal, the expected income of the second is at least that of the
  first; if the expected regular incomes are equal, the expected incomes differ by exactly
  the difference of the occasional incomes.
\<close>

theorem expectedIncome_monotone:
  "let b = calculateAvailableBudget d year month;
       b' = calculateAvailableBudget d' year' month'
   in (bd_actualRegularIncome b \<le> bd_actualRegularIncome b' \<and>
       bd_userExpectedIncome b \<le> bd_userExpectedIncome b' \<and>
       bd_averageIncome b \<le> bd_averageIncome b' \<and>
       bd_actualOccasionalIncome b = bd_actualOccasionalIncome b'
         \<longrightarrow> bd_expectedIncome b \<le> bd_expectedIncome b') \<and>
      (bd_expectedRegularIncome b = bd_expectedRegularIncome b'
         \<longrightarrow> bd_expectedIncome b' =
             bd_expectedIncome b +
             (bd_actualOccasionalIncome b' - bd_actualOccasionalIncome b))"
proof -
  let ?b = "calculateAvailableBudget d year month"
  let ?b' = "calculateAvailableBudget d' year' month'"
  have mono: "bd_expectedIncome ?b \<le> bd_expectedIncome ?b'"
    if "bd_actualRegularIncome ?b \<le> bd_actualRegularIncome ?b'"
      "bd_userExpectedIncome ?b \<le> bd_userExpectedIncome ?b'"
      "bd_averageIncome ?b \<le> bd_averageIncome ?b'"
      "bd_actualOccasionalIncome ?b = bd_actualOccasionalIncome ?b'"
    by (subst (1 2) budget_expected_fields(1)) (simp add: that expectedIncome_mono)
  have delta: "bd_expectedIncome ?b' =
      bd_expectedIncome ?b + (bd_actualOccasionalIncome ?b' - bd_actualOccasionalIncome ?b)"
    if "bd_expectedRegularIncome ?b = bd_expectedRegularIncome ?b'"
    by (subst (1 2) budget_expected_fields(2)) (simp add: that)
  from mono delta show ?thesis
    unfolding Let_def by blast
qed

lemma budget_fields:
  "bd_actualRegularIncome (calculateAvailableBudget d y m) = getRegularIncomeForMonth d y m"
  "bd_userExpectedIncome (calculateAvailableBudget d y m) = getExpectedIncome d"
  "bd_averageIncome (calculateAvailableBudget d y m) = getAverageRegularIncome d y m 3"
  "bd_actualOccasionalIncome (calculateAvailableBudget d y m) = getOccasionalIncomeForMonth d y m"
  "bd_savingsGoal (calculateAvailableBudget d y m) = getSavingsGoal d y m"
  "bd_actualIncome (calculateAvailableBudget d y m) = ms_income (getMonthlySummary d y m)"
  by (simp_all add: calculateAvailableBudget_def Let_def)

theorem expectedIncome_monotone_witness:
  "bd_userExpectedIncome (calculateAvailableBudget ex_pay_db 2024 1)
     < bd_userExpectedIncome (calculateAvailableBudget ex_override_db 2024 1) \<and>
   bd_expectedIncome (calculateAvailableBudget ex_pay_db 2024 1)
     \<le> bd_expectedIncome (calculateAvailableBudget ex_override_db 2024 1)"
proof -
  have h:
    "bd_actualRegularIncome (calculateAvailableBudget ex_pay_db 2024 1)
       \<le> bd_actualRegularIncome (calculateAvailableBudget ex_override_db 2024 1)"
    "bd_userExpectedIncome (calculateAvailableBudget ex_pay_db 2024 1)
       < bd_userExpectedIncome (calculateAvailableBudget ex_override_db 2024 1)"
    "bd_averageIncome (calculateAvailableBudget ex_pay_db 2024 1)
       \<le> bd_averageIncome (calculateAvailableBudget ex_override_db 2024 1)"
    "bd_actualOccasionalIncome (calculateAvailableBudget ex_pay_db 2024 1) =
       bd_actualOccasionalIncome (calculateAvailableBudget ex_override_db 2024 1)"
    unfolding budget_fields by code_simp+
  from expectedIncome_monotone [of ex_pay_db 2024 1 ex_override_db 2024 1] h
  show ?thesis by (simp add: Let_def)
qed

subsection \<open>Fixed and variable expenses\<close>

lemma fold_averages:
  "fold (\<lambda>cat averages. averages(cat_id cat \<mapsto> g (cat_id cat))) cs m0 k =
     (if k \<in> cat_id ` set cs then Some (g k) else m0 k)"
  by (induction cs arbitrary: m0) auto

lemma getAllCategoryAverages_lookup:
  "getAllCategoryAverages d y m k =
     (if k = UNCATEGORIZED \<or> k \<in> cat_id ` set (tbl_categories d)
      then Some (getCategoryAverage d k y m 3) else None)"
  unfolding getAllCategoryAverages_def Let_def
  using fold_averages [where g = "\<lambda>k. getCategoryAverage d k y m 3" and cs = "getCategories d"
      and ?m0.0 = Map.empty and k = k]
  by (simp add: getCategories_def)

lemma fst_fold_fixed_step:
  "fst (fold (fixed_step V av) es (f0, v0)) =
     f0 +
     sum_list (map (\<lambda>e. max (bk_expenses (snd e)) (case av (fst e) of None \<Rightarrow> 0 | Some a \<Rightarrow> a))
                   (filter (\<lambda>e. Some (fst e) \<noteq> V) es))"
  by (induction es arbitrary: f0 v0) (simp_all add: fixed_step_def Let_def)

lemma snd_fold_fixed_step:
  "distinct (map fst es) \<Longrightarrow>
   snd (fold (fixed_step V av) es (f0, v0)) =
     (case V of
        None \<Rightarrow> v0
      | Some v \<Rightarrow> (case map_of es v of None \<Rightarrow> v0 | Some b \<Rightarrow> bk_expenses b))"
proof (induction es arbitrary: f0 v0)
  case Nil
  show ?case by (simp split: option.splits)
next
  case (Cons e es)
  from Cons.prems have d: "distinct (map fst es)" and n: "fst e \<notin> fst ` set es"
    by simp_all
  from n have none: "map_of es (fst e) = None"
    by (simp add: map_of_eq_None_iff)
  obtain k b where e: "e = (k, b)"
    by (cases e)
  have step: "fixed_step V av (k, b) (f0, v0) =
      (if Some k = V then (f0, bk_expenses b)
       else (f0 + max (bk_expenses b) (case av k of None \<Rightarrow> 0 | Some a \<Rightarrow> a), v0))"
    by (simp add: fixed_step_def Let_def)
  show ?case
    using none unfolding e
    by (simp add: step Cons.IH [OF d] split: option.splits)
qed

lemma sum_list_over_keys:
  assumes "distinct (map fst es)"
  shows "sum_list (map (\<lambda>e. h (fst e)) (filter (\<lambda>e. P (fst e)) es)) =
           sum h {k \<in> fst ` set es. P k}"
proof -
  have "map (\<lambda>e. h (fst e)) (filter (\<lambda>e. P (fst e)) es) = map h (filter P (map fst es))"
    by (induction es) auto
  moreover have "distinct (filter P (map fst es))"
    using assms by simp
  ultimately have "sum_list (map (\<lambda>e. h (fst e)) (filter (\<lambda>e. P (fst e)) es)) =
        sum h (set (filter P (map fst es)))"
    by (simp add: sum_list_distinct_conv_sum_set)
  also have "set (filter P (map fst es)) = {k \<in> fst ` set es. P k}"
    by auto
  finally show ?thesis .
qed

lemma bucket_expenses:
  assumes "e \<in> set (ms_byCategory (getMonthlySummary d y m))"
  shows "bk_expenses (snd e) = category_expense d (fst e) y m"
proof -
  have "map_of (ms_byCategory (getMonthlySummary d y m)) (fst e) = Some (snd e)"
    using assms summary_keys(1) [of d y m] by simp
  then have "snd e =
      \<lparr>bk_income =
         sum_positive (filter (\<lambda>t. category_key t = fst e)
                         (ms_transactions (getMonthlySummary d y m))),
       bk_expenses =
         sum_abs_negative (filter (\<lambda>t. category_key t = fst e)
                             (ms_transactions (getMonthlySummary d y m))),
       bk_transactions =
         filter (\<lambda>t. category_key t = fst e) (ms_transactions (getMonthlySummary d y m))\<rparr>"
    unfolding summary_bucket by (simp split: if_splits)
  then have "bk_expenses (snd e) =
      sum_abs_negative (filter (\<lambda>t. category_key t = fst e)
                          (ms_transactions (getMonthlySummary d y m)))"
    by (rule ssubst) simp
  then show ?thesis
    by (simp add: category_expense_def)
qed

lemma bucket_expenses_pair:
  "(k, b) \<in> set (ms_byCategory (getMonthlySummary d y m)) \<Longrightarrow>
     bk_expenses b = category_expense d k y m"
  using bucket_expenses [of "(k, b)" d y m] by simp

lemma counted_subset_stored:
  "set (ms_transactions (getMonthlySummary d y m)) \<subseteq> set (tbl_transactions d)"
  by (auto simp: summary_fields(3) getTransactionsByIsraeliMonth_def Let_def
      set_select_between_desc)

lemma variableCategoryId_None:
  "variableCategoryId d = None \<longleftrightarrow>
     (\<forall>c \<in> set (tbl_categories d). cat_name c \<noteq> VARIABLE_EXPENSES_NAME)"
proof -
  have "variableCategoryId d = None \<longleftrightarrow>
          find (\<lambda>c. cat_name c = VARIABLE_EXPENSES_NAME) (getCategories d) = None"
    by (simp add: variableCategoryId_def split: option.splits)
  then show ?thesis
    by (auto simp: find_None_iff getCategories_def)
qed

lemma variableCategoryId_Some:
  "variableCategoryId d = Some v \<Longrightarrow>
     \<exists>c \<in> set (tbl_categories d). cat_id c = v \<and> cat_name c = VARIABLE_EXPENSES_NAME"
proof -
  assume "variableCategoryId d = Some v"
  then obtain c where f: "find (\<lambda>c. cat_name c = VARIABLE_EXPENSES_NAME) (getCategories d) = Some c"
    and v: "cat_id c = v"
    by (auto simp: variableCategoryId_def split: option.splits)
  from f have "c \<in> set (getCategories d)" "cat_name c = VARIABLE_EXPENSES_NAME"
    by (auto simp: find_Some_iff)
  with v show ?thesis
    by (auto simp: getCategories_def)
qed

lemma budget_tail_fields:
  "bd_fixedExpenses (calculateAvailableBudget d y m) =
     fst (fold (fixed_step (variableCategoryId d) (getAllCategoryAverages d y m))
            (ms_byCategory (getMonthlySummary d y m)) (0, 0))"
  "bd_variableActual (calculateAvailableBudget d y m) =
     snd (fold (fixed_step (variableCategoryId d) (getAllCategoryAverages d y m))
            (ms_byCategory (getMonthlySummary d y m)) (0, 0))"
  "bd_availableForVariable (calculateAvailableBudget d y m) =
     bd_expectedIncome (calculateAvailableBudget d y m) -
     bd_savingsGoal (calculateAvailableBudget d y m) -
     bd_fixedExpenses (calculateAvailableBudget d y m)"
  "bd_remainingForVariable (calculateAvailableBudget d y m) =
     bd_availableForVariable (calculateAvailableBudget d y m) -
     bd_variableActual (calculateAvailableBudget d y m)"
  by (simp_all add: calculateAvailableBudget_def Let_def)

lemma fixedExpenses_sum:
  "bd_fixedExpenses (calculateAvailableBudget d y m) =
     (\<Sum>k \<in> {k \<in> category_key ` set (ms_transactions (getMonthlySummary d y m)).
               Some k \<noteq> variableCategoryId d}.
        max (category_expense d k y m) (average_read d k y m))"
proof -
  let ?es = "ms_byCategory (getMonthlySummary d y m)"
  let ?V = "variableCategoryId d"
  let ?h = "\<lambda>k. max (category_expense d k y m) (average_read d k y m)"
  have av: "(case getAllCategoryAverages d y m k of None \<Rightarrow> 0 | Some a \<Rightarrow> a) =
              average_read d k y m" for k
    by (simp add: getAllCategoryAverages_lookup average_read_def UNCATEGORIZED_def)
  have eq: "sum_list (map (\<lambda>e. max (bk_expenses (snd e))
                   (case getAllCategoryAverages d y m (fst e) of None \<Rightarrow> 0 | Some a \<Rightarrow> a))
             (filter (\<lambda>e. Some (fst e) \<noteq> ?V) ?es)) =
        sum_list (map (\<lambda>e. ?h (fst e)) (filter (\<lambda>e. Some (fst e) \<noteq> ?V) ?es))"
    unfolding av
    by (rule arg_cong [where f = sum_list], rule map_cong [OF refl])
       (auto simp: bucket_expenses_pair)
  show ?thesis
    unfolding budget_tail_fields(1) fst_fold_fixed_step eq
      sum_list_over_keys [OF summary_keys(1), of ?h "\<lambda>k. Some k \<noteq> ?V" d y m]
    by (simp add: summary_keys(2))
qed

lemma variableActual_eq:
  "bd_variableActual (calculateAvailableBudget d y m) =
     (case variableCategoryId d of None \<Rightarrow> 0 | Some v \<Rightarrow> category_expense d v y m)"
proof -
  have "(case map_of (ms_byCategory (getMonthlySummary d y m)) v of
           None \<Rightarrow> 0 | Some b \<Rightarrow> bk_expenses b) = category_expense d v y m" for v
    by (rule categoryTotal_eq)
  note ct = this
  show ?thesis
  proof (cases "variableCategoryId d")
    case None
    then show ?thesis
      unfolding budget_tail_fields(2) snd_fold_fixed_step [OF summary_keys(1)] by simp
  next
    case (Some v)
    then show ?thesis
      unfolding budget_tail_fields(2) snd_fold_fixed_step [OF summary_keys(1)]
      using ct [of v] by simp
  qed
qed

lemma sum_over_remdups:
  "sum h {k \<in> set ks. P k} = sum_list (map h (filter P (remdups ks)))"
proof -
  have "sum_list (map h (filter P (remdups ks))) = sum h (set (filter P (remdups ks)))"
    by (rule sum_list_distinct_conv_sum_set) simp
  also have "set (filter P (remdups ks)) = {k \<in> set ks. P k}"
    by auto
  finally show ?thesis by simp
qed

text \<open>
  C4, as amended. The budget's fixed expenses are the sum, over the keys of the month's
  category buckets other than the id of the category named exactly as the
  variable-expenses category, of the larger of the bucket's actual expense and the average
  the loop reads for the key: the key's three-month average when the key is the id of a
  stored category or \<^verbatim>\<open>uncategorized\<close>, and 0 for any other key, whose bucket therefore
  contributes its actual expense. When no category has that name the sum runs over all
  buckets. The variable category's actual expense is reported apart (0 when it has no
  bucket), the amount available for variable expenses is expected income minus savings
  goal minus fixed expenses, and the remainder is that minus the variable actual; both
  are plain integers and may be negative.
\<close>

theorem fixedExpenses_and_remainder:
  "let s = getMonthlySummary d year month;
       b = calculateAvailableBudget d year month;
       V = variableCategoryId d;
       keys = remdups (map category_key (ms_transactions s));
       average =
         (\<lambda>k. if k = ''uncategorized'' \<or> k \<in> cat_id ` set (tbl_categories d)
              then getCategoryAverage d k year month 3 else 0);
       contribution = (\<lambda>k. max (category_expense d k year month) (average k))
   in set keys = fst ` set (ms_byCategory s) \<and>
      bd_fixedExpenses b =
        sum_list (map contribution (filter (\<lambda>k. Some k \<noteq> V) keys)) \<and>
      (V = None \<longrightarrow> bd_fixedExpenses b = sum_list (map contribution keys)) \<and>
      (\<forall>k. k \<noteq> ''uncategorized'' \<and> k \<notin> cat_id ` set (tbl_categories d) \<longrightarrow>
           contribution k = category_expense d k year month) \<and>
      bd_variableActual b =
        (case V of None \<Rightarrow> 0 | Some v \<Rightarrow> category_expense d v year month) \<and>
      bd_savingsGoal b = getSavingsGoal d year month \<and>
      bd_availableForVariable b =
        bd_expectedIncome b - bd_savingsGoal b - bd_fixedExpenses b \<and>
      bd_remainingForVariable b = bd_availableForVariable b - bd_variableActual b \<and>
      (V = None \<longleftrightarrow>
         (\<forall>c \<in> set (tbl_categories d). cat_name c \<noteq> VARIABLE_EXPENSES_NAME)) \<and>
      (\<forall>v. V = Some v \<longrightarrow>
         (\<exists>c \<in> set (tbl_categories d).
            cat_id c = v \<and> cat_name c = VARIABLE_EXPENSES_NAME))"
proof -
  let ?s = "getMonthlySummary d year month"
  let ?b = "calculateAvailableBudget d year month"
  let ?V = "variableCategoryId d"
  let ?keys = "remdups (map category_key (ms_transactions ?s))"
  let ?h = "\<lambda>k. max (category_expense d k year month)
                 (if k = ''uncategorized'' \<or> k \<in> cat_id ` set (tbl_categories d)
                  then getCategoryAverage d k year month 3 else 0)"
  have k: "set ?keys = fst ` set (ms_byCategory ?s)"
    by (simp add: summary_keys(2))
  have f: "bd_fixedExpenses ?b = sum_list (map ?h (filter (\<lambda>k. Some k \<noteq> ?V) ?keys))"
    unfolding fixedExpenses_sum average_read_def
    using sum_over_remdups [of ?h "map category_key (ms_transactions ?s)" "\<lambda>k. Some k \<noteq> ?V"]
    by simp
  have f0: "bd_fixedExpenses ?b = sum_list (map ?h ?keys)" if "?V = None"
    unfolding f that by simp
  have u: "\<forall>k. k \<noteq> ''uncategorized'' \<and> k \<notin> cat_id ` set (tbl_categories d) \<longrightarrow>
             ?h k = category_expense d k year month"
  proof (intro allI impI)
    fix k
    assume "k \<noteq> ''uncategorized'' \<and> k \<notin> cat_id ` set (tbl_categories d)"
    moreover have "0 \<le> category_expense d k year month"
      by (rule category_expense_nonneg)
    ultimately show "?h k = category_expense d k year month"
      by simp
  qed
  have sg: "bd_savingsGoal ?b = getSavingsGoal d year month"
    by (rule budget_fields)
  have some: "\<forall>v. ?V = Some v \<longrightarrow>
               (\<exists>c \<in> set (tbl_categories d).
                  cat_id c = v \<and> cat_name c = VARIABLE_EXPENSES_NAME)"
    using variableCategoryId_Some by blast
  show ?thesis
    unfolding Let_def
    using k f f0 u sg some variableActual_eq [of d year month]
      budget_tail_fields(3,4) [of d year month] variableCategoryId_None [of d]
    by blast
qed

text \<open>
  C4 as stated fails for a bucket whose key names no stored category: in April the only
  bucket has actual expense 50 and three-month average 120, no category is the variable
  one, and the fixed expenses are 50, not 120.
\<close>

theorem fixedExpenses_unknown_category_counterexample:
  "tbl_categories ex_dangling_db = [] \<and>
   variableCategoryId ex_dangling_db = None \<and>
   map fst (ms_byCategory (getMonthlySummary ex_dangling_db 2024 4)) = [''cat-7''] \<and>
   category_expense ex_dangling_db ''cat-7'' 2024 4 = 50 \<and>
   getCategoryAverage ex_dangling_db ''cat-7'' 2024 4 3 = 120 \<and>
   bd_fixedExpenses (calculateAvailableBudget ex_dangling_db 2024 4) = 50 \<and>
   bd_fixedExpenses (calculateAvailableBudget ex_dangling_db 2024 4) \<noteq>
     max (category_expense ex_dangling_db ''cat-7'' 2024 4)
         (getCategoryAverage ex_dangling_db ''cat-7'' 2024 4 3)"
proof -
  have e:
    "tbl_categories ex_dangling_db = []"
    "variableCategoryId ex_dangling_db = None"
    "map fst (ms_byCategory (getMonthlySummary ex_dangling_db 2024 4)) = [''cat-7'']"
    "category_expense ex_dangling_db ''cat-7'' 2024 4 = 50"
    "getCategoryAverage ex_dangling_db ''cat-7'' 2024 4 3 = 120"
    "bd_fixedExpenses (calculateAvailableBudget ex_dangling_db 2024 4) = 50"
    by code_simp+
  then show ?thesis by simp
qed

theorem fixedExpenses_and_remainder_witness:
  "variableCategoryId ex_budget_db = Some ''cat-2'' \<and>
   remdups (map category_key (ms_transactions (getMonthlySummary ex_budget_db 2024 4))) =
     [''cat-2'', ''cat-1'', ''uncategorized''] \<and>
   bd_fixedExpenses (calculateAvailableBudget ex_budget_db 2024 4) = 210 \<and>
   bd_variableActual (calculateAvailableBudget ex_budget_db 2024 4) = 30 \<and>
   bd_savingsGoal (calculateAvailableBudget ex_budget_db 2024 4) = 2000 \<and>
   bd_expectedIncome (calculateAvailableBudget ex_budget_db 2024 4) = 1700 \<and>
   bd_availableForVariable (calculateAvailableBudget ex_budget_db 2024 4) = - 510 \<and>
   bd_remainingForVariable (calculateAvailableBudget ex_budget_db 2024 4) = - 540 \<and>
   variableCategoryId ex_dangling_db = None \<and>
   bd_fixedExpenses (calculateAvailableBudget ex_dangling_db 2024 4) =
     category_expense ex_dangling_db ''cat-7'' 2024 4"
proof -
  note main = fixedExpenses_and_remainder [of ex_budget_db 2024 4, unfolded Let_def]
  note dang = fixedExpenses_and_remainder [of ex_dangling_db 2024 4, unfolded Let_def]
  have e:
    "variableCategoryId ex_budget_db = Some ''cat-2''"
    "remdups (map category_key (ms_transactions (getMonthlySummary ex_budget_db 2024 4))) =
       [''cat-2'', ''cat-1'', ''uncategorized'']"
    "getCategoryAverage ex_budget_db ''uncategorized'' 2024 4 3 = 0"
    "getCategoryAverage ex_budget_db ''cat-1'' 2024 4 3 = 120"
    "category_expense ex_budget_db ''uncategorized'' 2024 4 = 90"
    "category_expense ex_budget_db ''cat-1'' 2024 4 = 50"
    "category_expense ex_budget_db ''cat-2'' 2024 4 = 30"
    "getSavingsGoal ex_budget_db 2024 4 = 2000"
    "cat_id ` set (tbl_categories ex_budget_db) = {''cat-2'', ''cat-1''}"
    by code_simp+
  have x: "bd_expectedIncome (calculateAvailableBudget ex_budget_db 2024 4) = 1700"
    unfolding budget_expected_fields(1) budget_fields by code_simp
  have g:
    "variableCategoryId ex_dangling_db = None"
    "remdups (map category_key (ms_transactions (getMonthlySummary ex_dangling_db 2024 4))) =
       [''cat-7'']"
    "tbl_categories ex_dangling_db = []"
    by code_simp+
  from dang g have d1:
    "bd_fixedExpenses (calculateAvailableBudget ex_dangling_db 2024 4) =
       category_expense ex_dangling_db ''cat-7'' 2024 4"
    by simp
  from main e x have
    "bd_fixedExpenses (calculateAvailableBudget ex_budget_db 2024 4) = 210 \<and>
     bd_variableActual (calculateAvailableBudget ex_budget_db 2024 4) = 30 \<and>
     bd_savingsGoal (calculateAvailableBudget ex_budget_db 2024 4) = 2000 \<and>
     bd_availableForVariable (calculateAvailableBudget ex_budget_db 2024 4) = - 510 \<and>
     bd_remainingForVariable (calculateAvailableBudget ex_budget_db 2024 4) = - 540"
    by simp
  with e(1,2) x g(1) d1 show ?thesis by simp
qed

subsection \<open>Year-to-date summary\<close>

lemma belongsToYear_resolved: "belongsToYear t = resolved_year t"
  by (simp add: belongsToYear_def resolved_year_def matches_bill_pattern_def Let_def)

lemma ytd_step_fields:
  "y_count (ytd_step year t a) = y_count a + (if belongsToYear t = year then 1 else 0)"
  "y_investmentTotal (ytd_step year t a) =
     y_investmentTotal a + (if belongsToYear t = year \<and> is_investment t then \<bar>amount t\<bar> else 0)"
  "y_income (ytd_step year t a) =
     y_income a +
     (if belongsToYear t = year \<and> \<not> is_investment t \<and> amount t > 0 then amount t else 0)"
  "y_expenses (ytd_step year t a) =
     y_expenses a +
     (if belongsToYear t = year \<and> \<not> is_investment t \<and> \<not> amount t > 0 then \<bar>amount t\<bar> else 0)"
  by (simp_all add: ytd_step_def)

lemma fold_ytd_step:
  "fold (ytd_step year) ts a =
     \<lparr>y_income =
        y_income a +
        sum_positive (filter (\<lambda>t. \<not> is_investment t) (filter (\<lambda>t. belongsToYear t = year) ts)),
      y_expenses =
        y_expenses a +
        sum_abs_negative (filter (\<lambda>t. \<not> is_investment t)
                            (filter (\<lambda>t. belongsToYear t = year) ts)),
      y_investmentTotal =
        y_investmentTotal a +
        sum_abs (filter is_investment (filter (\<lambda>t. belongsToYear t = year) ts)),
      y_count = y_count a + length (filter (\<lambda>t. belongsToYear t = year) ts)\<rparr>"
proof (induction ts arbitrary: a)
  case Nil
  show ?case by simp
next
  case (Cons t ts)
  show ?case
    by (simp add: Cons.IH ytd_step_fields)
qed

lemma window_of_resolved_year:
  assumes "valid_date (date t)" "resolved_year t = year"
  shows "(year, 1, 1) \<le> date t \<and> date t \<le> (year + 1, 1, 3)"
proof -
  obtain y m dd where dt: "date t = (y, m, dd)"
    by (cases "date t") auto
  from assms show ?thesis
    unfolding dt resolved_year_def valid_date_def getFullYear_def getMonth1_def getDate_def
    by (auto simp: less_eq_prod_simp split: if_splits)
qed

lemma ytd_fields:
  "ytd_year (getYearToDateSummary d year) = year"
  "ytd_transactionCount (getYearToDateSummary d year) =
     length (filter (\<lambda>t. resolved_year t = year) (select_ytd d (year, 1, 1) (year + 1, 1, 3)))"
  "ytd_investmentTotal (getYearToDateSummary d year) =
     sum_abs (filter is_investment
       (filter (\<lambda>t. resolved_year t = year) (select_ytd d (year, 1, 1) (year + 1, 1, 3))))"
  "ytd_income (getYearToDateSummary d year) =
     sum_positive (filter (\<lambda>t. \<not> is_investment t)
       (filter (\<lambda>t. resolved_year t = year) (select_ytd d (year, 1, 1) (year + 1, 1, 3))))"
  "ytd_expenses (getYearToDateSummary d year) =
     sum_abs_negative (filter (\<lambda>t. \<not> is_investment t)
       (filter (\<lambda>t. resolved_year t = year) (select_ytd d (year, 1, 1) (year + 1, 1, 3))))"
  "ytd_balance (getYearToDateSummary d year) =
     ytd_income (getYearToDateSummary d year) - ytd_expenses (getYearToDateSummary d year)"
  by (simp_all add: getYearToDateSummary_def Let_def fold_ytd_step belongsToYear_resolved
      del: filter_filter)

text \<open>
  C8. In a store of calendar dates, \<^verbatim>\<open>getYearToDateSummary(year)\<close> reads the non-transfer
  rows dated from 1 January of the year to 3 January of the next, resolves a row dated 1
  to 3 January that matches a salary or credit-card pattern to the previous year and every
  other row to its calendar year, and counts the rows resolved to the requested year, which
  are all the non-transfer rows of the store resolved to it. The investment total is the
  sum of the absolute amounts of the counted rows flagged as investment; the others are
  summed into income (positive) or expenses (absolute value of the negative ones); balance
  is income minus expenses and the count is the number of counted rows.
\<close>

theorem getYearToDateSummary_totals:
  assumes "\<forall>t \<in> set (tbl_transactions d). valid_date (date t)"
  shows "let considered =
               filter (\<lambda>t. (year, 1, 1) \<le> date t \<and> date t \<le> (year + 1, 1, 3) \<and> \<not> is_transfer t)
                      (tbl_transactions d);
             counted = ytd_counted d year;
             y = getYearToDateSummary d year
         in filter (\<lambda>t. resolved_year t = year) considered = counted \<and>
            ytd_year y = year \<and>
            ytd_transactionCount y = length counted \<and>
            ytd_investmentTotal y = sum_abs (filter is_investment counted) \<and>
            ytd_income y = sum_positive (filter (\<lambda>t. \<not> is_investment t) counted) \<and>
            ytd_expenses y = sum_abs_negative (filter (\<lambda>t. \<not> is_investment t) counted) \<and>
            ytd_balance y = ytd_income y - ytd_expenses y"
proof -
  have c: "filter (\<lambda>t. resolved_year t = year)
             (filter (\<lambda>t. (year, 1, 1) \<le> date t \<and> date t \<le> (year + 1, 1, 3) \<and> \<not> is_transfer t)
                (tbl_transactions d)) =
           ytd_counted d year"
    unfolding filter_filter ytd_counted_def
    by (rule filter_cong [OF refl]) (use assms window_of_resolved_year in blast)
  note f = ytd_fields(2-5) [of d year, unfolded select_ytd_def c]
  show ?thesis
    unfolding Let_def
    by (intro conjI c f ytd_fields(1) ytd_fields(6))
qed

theorem getYearToDateSummary_totals_witness:
  "resolved_year (mk_txn [49] (2025, 1, 2) 1300000 salary_text) = 2024 \<and>
   resolved_year (mk_txn [50] (2025, 1, 2) (- 4500) grocery_text) = 2025 \<and>
   map txn_id (ytd_counted ex_ytd_db 2024) = [[49], [52], [54]] \<and>
   ytd_transactionCount (getYearToDateSummary ex_ytd_db 2024) = 3 \<and>
   ytd_income (getYearToDateSummary ex_ytd_db 2024) = 1300000 \<and>
   ytd_expenses (getYearToDateSummary ex_ytd_db 2024) = 800 \<and>
   ytd_investmentTotal (getYearToDateSummary ex_ytd_db 2024) = 70000 \<and>
   ytd_balance (getYearToDateSummary ex_ytd_db 2024) = 1299200"
proof -
  have v: "\<forall>t \<in> set (tbl_transactions ex_ytd_db). valid_date (date t)"
    by code_simp
  have e:
    "resolved_year (mk_txn [49] (2025, 1, 2) 1300000 salary_text) = 2024"
    "resolved_year (mk_txn [50] (2025, 1, 2) (- 4500) grocery_text) = 2025"
    "map txn_id (ytd_counted ex_ytd_db 2024) = [[49], [52], [54]]"
    "sum_positive (filter (\<lambda>t. \<not> is_investment t) (ytd_counted ex_ytd_db 2024)) = 1300000"
    "sum_abs_negative (filter (\<lambda>t. \<not> is_investment t) (ytd_counted ex_ytd_db 2024)) = 800"
    "sum_abs (filter is_investment (ytd_counted ex_ytd_db 2024)) = 70000"
    by code_simp+
  have l: "length (ytd_counted ex_ytd_db 2024) = 3"
    using e(3) [THEN arg_cong, of length] by simp
  from getYearToDateSummary_totals [OF v, of 2024] e l
  show ?thesis by (simp add: Let_def)
qed

subsection \<open>Ingestion\<close>


lemma txn_id_updated_row [simp]: "txn_id (updated_row acct x r) = txn_id r"
  by (simp add: updated_row_def)

lemma txn_id_inserted_row [simp]: "txn_id (inserted_row lc acct x) = raw_id x"
  by (simp add: inserted_row_def)



















subsection \<open>Categorising a transaction\<close>

lemma find_updated_row:
  assumes "distinct (map txn_id rows)" "t \<in> set rows" "txn_id (f t) = txn_id t"
  shows "find (\<lambda>r. txn_id r = txn_id t) (map (\<lambda>r. if txn_id r = txn_id t then f r else r) rows) =
           Some (f t)"
  using assms(1,2)
proof (induction rows)
  case Nil
  then show ?case by simp
next
  case (Cons a rows)
  show ?case
  proof (cases "a = t")
    case True
    then show ?thesis using assms(3) by simp
  next
    case False
    with Cons.prems have "t \<in> set rows" "txn_id a \<noteq> txn_id t"
      by (auto simp: image_iff)
    with Cons show ?thesis by simp
  qed
qed

lemma cascade_after_update:
  assumes "distinct (map txn_id rows)" "t \<in> set rows" "c \<noteq> []"
  shows "map (\<lambda>r. if description r = description t \<and>
                     (category_id r = None \<or> category_id r = Some [])
                  then r\<lparr>category_id := Some c\<rparr> else r)
             (map (\<lambda>r. if txn_id r = txn_id t then r\<lparr>category_id := Some c\<rparr> else r) rows) =
         map (\<lambda>r. if txn_id r = txn_id t \<or>
                     (description r = description t \<and>
                      (category_id r = None \<or> category_id r = Some []))
                  then r\<lparr>category_id := Some c\<rparr> else r) rows"
  unfolding map_map
  by (rule map_cong [OF refl]) (use assms(3) in auto)

text \<open>
  C7, as amended. In a store with unique ids, for a stored transaction t with description
  X: if X is not empty and c is the (non-empty) id of a stored category,
  \<^verbatim>\<open>setTransactionCategory(t, c)\<close> returns normally, maps X to c in the rules, sets t's
  category to c and gives c to every row whose description is exactly X and whose
  category is NULL or empty; every other row, a row of description X in another category
  included, is unchanged. If X is not empty and c is not empty but is the id of no stored
  category, the rule upsert is refused by the foreign key: the call raises, no rule is
  written and no other row changes. With a null category and a non-empty id the call
  returns normally, sets t's category to NULL, changes no other row and removes the rule
  keyed by X when X is not empty. When X is empty only t's own category is set, whatever
  the category: no rule is written or removed and nothing cascades.
\<close>

theorem setTransactionCategory_cascade:
  assumes "distinct (map txn_id (tbl_transactions d))" "t \<in> set (tbl_transactions d)"
  shows
    "(description t \<noteq> [] \<and> c \<noteq> [] \<and> c \<in> cat_id ` set (tbl_categories d) \<longrightarrow>
        (let res = setTransactionCategory d (txn_id t) (Some c)
         in snd res = None \<and>
            tbl_category_rules (fst res) = (tbl_category_rules d)(description t \<mapsto> c) \<and>
            tbl_transactions (fst res) =
              map (\<lambda>r. if txn_id r = txn_id t \<or>
                          (description r = description t \<and>
                           (category_id r = None \<or> category_id r = Some []))
                       then r\<lparr>category_id := Some c\<rparr> else r)
                  (tbl_transactions d))) \<and>
     (description t \<noteq> [] \<and> c \<noteq> [] \<and> c \<notin> cat_id ` set (tbl_categories d) \<longrightarrow>
        (let res = setTransactionCategory d (txn_id t) (Some c)
         in snd res = Some ForeignKeyConstraintFailed \<and>
            tbl_category_rules (fst res) = tbl_category_rules d \<and>
            filter (\<lambda>r. txn_id r \<noteq> txn_id t) (tbl_transactions (fst res)) =
              filter (\<lambda>r. txn_id r \<noteq> txn_id t) (tbl_transactions d))) \<and>
     (description t \<noteq> [] \<and> txn_id t \<noteq> [] \<longrightarrow>
        (let res = setTransactionCategory d (txn_id t) None
         in snd res = None \<and>
            tbl_category_rules (fst res) = (tbl_category_rules d)(description t := None) \<and>
            tbl_transactions (fst res) =
              map (\<lambda>r. if txn_id r = txn_id t then r\<lparr>category_id := None\<rparr> else r)
                  (tbl_transactions d))) \<and>
     (description t = [] \<longrightarrow>
        (let res = setTransactionCategory d (txn_id t) k
         in snd res = None \<and>
            tbl_category_rules (fst res) = tbl_category_rules d \<and>
            tbl_transactions (fst res) =
              map (\<lambda>r. if txn_id r = txn_id t then r\<lparr>category_id := k\<rparr> else r)
                  (tbl_transactions d)))"
proof -
  have f: "find (\<lambda>r. txn_id r = txn_id t)
             (map (\<lambda>r. if txn_id r = txn_id t then r\<lparr>category_id := k'\<rparr> else r)
                (tbl_transactions d)) = Some (t\<lparr>category_id := k'\<rparr>)" for k'
    by (rule find_updated_row [OF assms]) simp
  have fk: "list_ex (\<lambda>x. cat_id x = c) (tbl_categories d) \<longleftrightarrow>
              c \<in> cat_id ` set (tbl_categories d)"
    by (auto simp: list_ex_iff image_iff)
  have others: "filter (\<lambda>r. txn_id r \<noteq> txn_id t)
                  (map (\<lambda>r. if txn_id r = txn_id t then r\<lparr>category_id := k'\<rparr> else r) rows) =
                filter (\<lambda>r. txn_id r \<noteq> txn_id t) rows" for k' and rows :: "txn list"
    by (induction rows) auto
  have a: "description t \<noteq> [] \<and> c \<noteq> [] \<and> c \<in> cat_id ` set (tbl_categories d) \<longrightarrow>
        (let res = setTransactionCategory d (txn_id t) (Some c)
         in snd res = None \<and>
            tbl_category_rules (fst res) = (tbl_category_rules d)(description t \<mapsto> c) \<and>
            tbl_transactions (fst res) =
              map (\<lambda>r. if txn_id r = txn_id t \<or>
                          (description r = description t \<and>
                           (category_id r = None \<or> category_id r = Some []))
                       then r\<lparr>category_id := Some c\<rparr> else r)
                  (tbl_transactions d))"
    using cascade_after_update [OF assms, of c]
    by (simp add: setTransactionCategory_def upsert_rule_and_cascade_def
        delete_rule_when_cleared_def Let_def f fk truthy_def)
  have r: "description t \<noteq> [] \<and> c \<noteq> [] \<and> c \<notin> cat_id ` set (tbl_categories d) \<longrightarrow>
        (let res = setTransactionCategory d (txn_id t) (Some c)
         in snd res = Some ForeignKeyConstraintFailed \<and>
            tbl_category_rules (fst res) = tbl_category_rules d \<and>
            filter (\<lambda>r. txn_id r \<noteq> txn_id t) (tbl_transactions (fst res)) =
              filter (\<lambda>r. txn_id r \<noteq> txn_id t) (tbl_transactions d))"
    by (simp add: setTransactionCategory_def upsert_rule_and_cascade_def Let_def f fk
        truthy_def others)
  have b: "description t \<noteq> [] \<and> txn_id t \<noteq> [] \<longrightarrow>
        (let res = setTransactionCategory d (txn_id t) None
         in snd res = None \<and>
            tbl_category_rules (fst res) = (tbl_category_rules d)(description t := None) \<and>
            tbl_transactions (fst res) =
              map (\<lambda>r. if txn_id r = txn_id t then r\<lparr>category_id := None\<rparr> else r)
                  (tbl_transactions d))"
    by (simp add: setTransactionCategory_def upsert_rule_and_cascade_def
        delete_rule_when_cleared_def Let_def f truthy_def)
  have e: "description t = [] \<longrightarrow>
        (let res = setTransactionCategory d (txn_id t) k
         in snd res = None \<and>
            tbl_category_rules (fst res) = tbl_category_rules d \<and>
            tbl_transactions (fst res) =
              map (\<lambda>r. if txn_id r = txn_id t then r\<lparr>category_id := k\<rparr> else r)
                  (tbl_transactions d))"
    by (simp add: setTransactionCategory_def upsert_rule_and_cascade_def
        delete_rule_when_cleared_def Let_def f truthy_def)
  from a r b e show ?thesis by blast
qed

text \<open>
  C7 as stated fails on a transaction without description, although the category is a
  stored one: the call returns normally and the transaction's category is set, but no
  rule is written for the (empty) description and the other uncategorised row with the
  same description keeps no category.
\<close>

theorem setTransactionCategory_empty_description_counterexample:
  "ex_blank_a \<in> set (tbl_transactions ex_blank_db) \<and>
   ex_blank_b \<in> set (tbl_transactions ex_blank_db) \<and>
   ''cat-1'' \<in> cat_id ` set (tbl_categories ex_blank_db) \<and>
   txn_id ex_blank_b \<noteq> txn_id ex_blank_a \<and>
   description ex_blank_b = description ex_blank_a \<and>
   category_id ex_blank_b = None \<and>
   snd (setTransactionCategory ex_blank_db (txn_id ex_blank_a) (Some ''cat-1'')) = None \<and>
   tbl_category_rules
     (fst (setTransactionCategory ex_blank_db (txn_id ex_blank_a) (Some ''cat-1'')))
     (description ex_blank_a) \<noteq> Some ''cat-1'' \<and>
   map category_id
     (tbl_transactions
        (fst (setTransactionCategory ex_blank_db (txn_id ex_blank_a) (Some ''cat-1'')))) =
     [Some ''cat-1'', None]"
  by (simp add: ex_blank_db_def ex_blank_a_def ex_blank_b_def mk_txn_def ex_two_categories_def
      setTransactionCategory_def upsert_rule_and_cascade_def delete_rule_when_cleared_def
      Let_def truthy_def)

theorem setTransactionCategory_cascade_witness:
  "map category_id (tbl_transactions ex_rule_db) =
     [None, None, Some ''cat-9'', Some [], None] \<and>
   snd (setTransactionCategory ex_rule_db (txn_id ex_rule_t) (Some ''cat-1'')) = None \<and>
   map category_id
     (tbl_transactions
        (fst (setTransactionCategory ex_rule_db (txn_id ex_rule_t) (Some ''cat-1'')))) =
     [Some ''cat-1'', Some ''cat-1'', Some ''cat-9'', Some ''cat-1'', None] \<and>
   tbl_category_rules
     (fst (setTransactionCategory ex_rule_db (txn_id ex_rule_t) (Some ''cat-1'')))
     (description ex_rule_t) = Some ''cat-1'' \<and>
   snd (setTransactionCategory ex_rule_db (txn_id ex_rule_t) (Some ''cat-404'')) =
     Some ForeignKeyConstraintFailed \<and>
   tbl_category_rules
     (fst (setTransactionCategory ex_rule_db (txn_id ex_rule_t) (Some ''cat-404'')))
     (description ex_rule_t) = Some ''cat-9'' \<and>
   map category_id
     (tbl_transactions (fst (setTransactionCategory ex_rule_db (txn_id ex_rule_t) None))) =
     [None, None, Some ''cat-9'', Some [], None] \<and>
   tbl_category_rules (fst (setTransactionCategory ex_rule_db (txn_id ex_rule_t) None))
     (description ex_rule_t) = None"
proof -
  have dst: "distinct (map txn_id (tbl_transactions ex_rule_db))"
    by (simp add: ex_rule_db_def ex_rule_t_def mk_txn_def)
  have mem: "ex_rule_t \<in> set (tbl_transactions ex_rule_db)"
    by (simp add: ex_rule_db_def)
  have ne: "description ex_rule_t \<noteq> []" "txn_id ex_rule_t \<noteq> []" "''cat-1'' \<noteq> []"
    "''cat-404'' \<noteq> []"
    by (simp_all add: ex_rule_t_def mk_txn_def grocery_text_def)
  have cats: "''cat-1'' \<in> cat_id ` set (tbl_categories ex_rule_db)"
    "''cat-404'' \<notin> cat_id ` set (tbl_categories ex_rule_db)"
    by (simp_all add: ex_rule_db_def ex_two_categories_def)
  note main = setTransactionCategory_cascade [OF dst mem, of "''cat-1''", unfolded Let_def]
  note refused = setTransactionCategory_cascade [OF dst mem, of "''cat-404''", unfolded Let_def]
  from main ne cats have
    s1: "snd (setTransactionCategory ex_rule_db (txn_id ex_rule_t) (Some ''cat-1'')) = None"
    and r1: "tbl_category_rules
               (fst (setTransactionCategory ex_rule_db (txn_id ex_rule_t) (Some ''cat-1''))) =
             (tbl_category_rules ex_rule_db)(description ex_rule_t \<mapsto> ''cat-1'')"
    and t1: "tbl_transactions
               (fst (setTransactionCategory ex_rule_db (txn_id ex_rule_t) (Some ''cat-1''))) =
             map (\<lambda>r. if txn_id r = txn_id ex_rule_t \<or>
                          (description r = description ex_rule_t \<and>
                           (category_id r = None \<or> category_id r = Some []))
                       then r\<lparr>category_id := Some ''cat-1''\<rparr> else r)
                 (tbl_transactions ex_rule_db)"
    and r2: "tbl_category_rules (fst (setTransactionCategory ex_rule_db (txn_id ex_rule_t) None)) =
             (tbl_category_rules ex_rule_db)(description ex_rule_t := None)"
    and t2: "tbl_transactions (fst (setTransactionCategory ex_rule_db (txn_id ex_rule_t) None)) =
             map (\<lambda>r. if txn_id r = txn_id ex_rule_t then r\<lparr>category_id := None\<rparr> else r)
                 (tbl_transactions ex_rule_db)"
    by blast+
  from refused ne cats have
    s3: "snd (setTransactionCategory ex_rule_db (txn_id ex_rule_t) (Some ''cat-404'')) =
           Some ForeignKeyConstraintFailed"
    and r3: "tbl_category_rules
               (fst (setTransactionCategory ex_rule_db (txn_id ex_rule_t) (Some ''cat-404''))) =
             tbl_category_rules ex_rule_db"
    by blast+
  show ?thesis
    unfolding s1 r1 t1 r2 t2 s3 r3
    by (simp add: ex_rule_db_def ex_rule_t_def mk_txn_def grocery_text_def cafe_text_def)
qed

end
